theory Spec2Isabelle
  imports Complex_Main "HOL-Library.Word" "HOL-Library.Sublist"
begin

unbundle bit_operations_syntax

section \<open>Numbers of Python and numpy\<close>

text \<open>
  \<open>model/solver.py\<close> computes with four kinds of numbers: Python integers (the
  literals \<open>0\<close>, \<open>2\<close>, \<open>100\<close> and \<open>len(f_scores)\<close>), numpy \<open>int64\<close> scalars (the
  entries of the arrays \<open>S\<close>, \<open>G\<close> made with \<open>dtype=int\<close>), Python floats and numpy
  floats. A float is either finite or one of the three special values of IEEE 754.
  Finite floats are taken as exact reals: rounding is not part of this model, and the
  sign of a zero is not kept (a zero divisor counts as \<open>+0.0\<close>). The special values
  follow IEEE 754, which is what numpy computes with its default error state (a
  division by zero is a warning there, not an exception).
\<close>

datatype fl = Fin real | PosInf | NegInf | NaN

datatype error =
    ZeroDivisionError
  | ValueError
  | StopIteration
  | RuntimeError
  | NotImplementedError string

datatype pynum = PyInt int | NpInt "64 word" | PyFloat fl | NpFloat fl

fun fl_neg :: "fl \<Rightarrow> fl" where
  "fl_neg (Fin a) = Fin (- a)"
| "fl_neg PosInf = NegInf"
| "fl_neg NegInf = PosInf"
| "fl_neg NaN = NaN"

fun fl_add :: "fl \<Rightarrow> fl \<Rightarrow> fl" where
  "fl_add NaN _ = NaN"
| "fl_add _ NaN = NaN"
| "fl_add (Fin a) (Fin b) = Fin (a + b)"
| "fl_add PosInf NegInf = NaN"
| "fl_add NegInf PosInf = NaN"
| "fl_add PosInf _ = PosInf"
| "fl_add NegInf _ = NegInf"
| "fl_add (Fin a) PosInf = PosInf"
| "fl_add (Fin a) NegInf = NegInf"

definition fl_sub :: "fl \<Rightarrow> fl \<Rightarrow> fl" where
  "fl_sub a b = fl_add a (fl_neg b)"

text \<open>The sign of an infinite product or quotient: \<open>True\<close> is negative.\<close>

fun fl_negative :: "fl \<Rightarrow> bool" where
  "fl_negative (Fin a) = (a < 0)"
| "fl_negative PosInf = False"
| "fl_negative NegInf = True"
| "fl_negative NaN = False"

definition fl_inf :: "bool \<Rightarrow> fl" where
  "fl_inf negative = (if negative then NegInf else PosInf)"

fun fl_mul :: "fl \<Rightarrow> fl \<Rightarrow> fl" where
  "fl_mul NaN _ = NaN"
| "fl_mul _ NaN = NaN"
| "fl_mul (Fin a) (Fin b) = Fin (a * b)"
| "fl_mul (Fin a) y = (if a = 0 then NaN else fl_inf (fl_negative (Fin a) \<noteq> fl_negative y))"
| "fl_mul x (Fin b) = (if b = 0 then NaN else fl_inf (fl_negative x \<noteq> fl_negative (Fin b)))"
| "fl_mul x y = fl_inf (fl_negative x \<noteq> fl_negative y)"

fun fl_div :: "fl \<Rightarrow> fl \<Rightarrow> fl" where
  "fl_div NaN _ = NaN"
| "fl_div _ NaN = NaN"
| "fl_div (Fin a) (Fin b) =
     (if b = 0 then (if a = 0 then NaN else fl_inf (a < 0)) else Fin (a / b))"
| "fl_div (Fin a) y = Fin 0"
| "fl_div x (Fin b) = fl_inf (fl_negative x \<noteq> fl_negative (Fin b))"
| "fl_div x y = NaN"

text \<open>Comparisons: every comparison with \<open>NaN\<close> is false.\<close>

fun fl_eq :: "fl \<Rightarrow> fl \<Rightarrow> bool" where
  "fl_eq (Fin a) (Fin b) = (a = b)"
| "fl_eq PosInf PosInf = True"
| "fl_eq NegInf NegInf = True"
| "fl_eq _ _ = False"

fun fl_gt :: "fl \<Rightarrow> fl \<Rightarrow> bool" where
  "fl_gt NaN _ = False"
| "fl_gt _ NaN = False"
| "fl_gt (Fin a) (Fin b) = (a > b)"
| "fl_gt PosInf PosInf = False"
| "fl_gt PosInf _ = True"
| "fl_gt NegInf _ = False"
| "fl_gt (Fin a) PosInf = False"
| "fl_gt (Fin a) NegInf = True"

definition fl_ge :: "fl \<Rightarrow> fl \<Rightarrow> bool" where
  "fl_ge a b = (fl_gt a b \<or> fl_eq a b)"

text \<open>The value of a number as a float, and whether it is a numpy scalar.\<close>

fun to_fl :: "pynum \<Rightarrow> fl" where
  "to_fl (PyInt i) = Fin (real_of_int i)"
| "to_fl (NpInt w) = Fin (real_of_int (sint w))"
| "to_fl (PyFloat x) = x"
| "to_fl (NpFloat x) = x"

fun is_numpy :: "pynum \<Rightarrow> bool" where
  "is_numpy (NpInt _) = True"
| "is_numpy (NpFloat _) = True"
| "is_numpy _ = False"

text \<open>
  \<open>a + b\<close> and \<open>a * b\<close>. Two integers give an integer, which is an \<open>int64\<close> (and wraps
  around) as soon as one of them is; a float operand gives a float, a numpy float as
  soon as one operand is a numpy scalar.
\<close>

fun py_add :: "pynum \<Rightarrow> pynum \<Rightarrow> pynum" where
  "py_add (PyInt a) (PyInt b) = PyInt (a + b)"
| "py_add (PyInt a) (NpInt b) = NpInt (word_of_int a + b)"
| "py_add (NpInt a) (PyInt b) = NpInt (a + word_of_int b)"
| "py_add (NpInt a) (NpInt b) = NpInt (a + b)"
| "py_add x y =
     (if is_numpy x \<or> is_numpy y then NpFloat (fl_add (to_fl x) (to_fl y))
      else PyFloat (fl_add (to_fl x) (to_fl y)))"

fun py_mul :: "pynum \<Rightarrow> pynum \<Rightarrow> pynum" where
  "py_mul (PyInt a) (PyInt b) = PyInt (a * b)"
| "py_mul (PyInt a) (NpInt b) = NpInt (word_of_int a * b)"
| "py_mul (NpInt a) (PyInt b) = NpInt (a * word_of_int b)"
| "py_mul (NpInt a) (NpInt b) = NpInt (a * b)"
| "py_mul x y =
     (if is_numpy x \<or> is_numpy y then NpFloat (fl_mul (to_fl x) (to_fl y))
      else PyFloat (fl_mul (to_fl x) (to_fl y)))"

text \<open>
  \<open>a / b\<close>, true division. Between Python numbers a zero divisor raises
  \<open>ZeroDivisionError\<close>; with a numpy scalar on either side the result is the IEEE one
  (\<open>nan\<close> for \<open>0/0\<close>, an infinity for \<open>x/0\<close>).
\<close>

definition py_truediv :: "pynum \<Rightarrow> pynum \<Rightarrow> error + pynum" where
  "py_truediv x y =
     (if is_numpy x \<or> is_numpy y then Inr (NpFloat (fl_div (to_fl x) (to_fl y)))
      else if to_fl y = Fin 0 then Inl ZeroDivisionError
      else Inr (PyFloat (fl_div (to_fl x) (to_fl y))))"

definition py_eq :: "pynum \<Rightarrow> pynum \<Rightarrow> bool" where
  "py_eq x y = fl_eq (to_fl x) (to_fl y)"

definition py_gt :: "pynum \<Rightarrow> pynum \<Rightarrow> bool" where
  "py_gt x y = fl_gt (to_fl x) (to_fl y)"

definition np_isnan :: "pynum \<Rightarrow> bool" where
  "np_isnan x = (to_fl x = NaN)"

text \<open>
  The builtin \<open>sum\<close> starts from the Python integer \<open>0\<close> and adds the items from left
  to right: the sum of an empty array is the Python \<open>0\<close>, the sum of a non-empty
  \<open>int64\<close> array is an \<open>int64\<close>. The builtin \<open>max\<close> raises \<open>ValueError\<close> on an empty
  list and otherwise keeps the first item unless a later one compares greater.
\<close>

definition py_sum :: "pynum list \<Rightarrow> pynum" where
  "py_sum xs = foldl py_add (PyInt 0) xs"

fun py_max :: "pynum list \<Rightarrow> error + pynum" where
  "py_max [] = Inl ValueError"
| "py_max (x # xs) = Inr (foldl (\<lambda>maxitem item. if py_gt item maxitem then item else maxitem) x xs)"

section \<open>The scoring metric \<open>evaluate_summary\<close>\<close>

text \<open>
  A user-summary matrix is a two-dimensional array: its rows, one per annotator, and
  \<open>shape[1]\<close>, which an array has even when it has no row. \<open>shape[0]\<close> is the number of
  rows. The entries are given as the \<open>int64\<close> values that the assignments into \<open>S\<close> and
  \<open>G\<close> (arrays of \<open>dtype=int\<close>) store. In an array every row has \<open>shape[1]\<close> entries:
  \<open>ndarray_ok\<close>.
\<close>

record ndarray2 =
  shape1 :: nat
  rows :: "64 word list list"

definition shape0 :: "ndarray2 \<Rightarrow> nat" where
  "shape0 a = length (rows a)"

definition ndarray_ok :: "ndarray2 \<Rightarrow> bool" where
  "ndarray_ok a = list_all (\<lambda>r. length r = shape1 a) (rows a)"

definition np_zeros :: "nat \<Rightarrow> 64 word list" where
  "np_zeros n = replicate n 0"

text \<open>
  \<open>A[:n] = v\<close> for a \<open>v\<close> of \<open>n\<close> entries and an \<open>A\<close> of at least \<open>n\<close>: the first \<open>n\<close>
  entries of \<open>A\<close> are replaced. Lines 23 to 30 only assign under these conditions.
\<close>

definition slice_assign :: "'a list \<Rightarrow> nat \<Rightarrow> 'a list \<Rightarrow> 'a list" where
  "slice_assign A n v = take n v @ drop n A"

definition np_and :: "64 word list \<Rightarrow> 64 word list \<Rightarrow> 64 word list" where
  "np_and S G = map2 (\<lambda>s g. s AND g) S G"

definition precision :: "64 word list \<Rightarrow> 64 word list \<Rightarrow> error + pynum" where
  "precision S G = py_truediv (py_sum (map NpInt (np_and S G))) (py_sum (map NpInt S))"

definition recall :: "64 word list \<Rightarrow> 64 word list \<Rightarrow> error + pynum" where
  "recall S G = py_truediv (py_sum (map NpInt (np_and S G))) (py_sum (map NpInt G))"

text \<open>Lines 31 to 39: the F-score of one annotator, from \<open>S\<close> and the current \<open>G\<close>.\<close>

definition f_score :: "64 word list \<Rightarrow> 64 word list \<Rightarrow> error + pynum" where
  "f_score S G =
     (case precision S G of
        Inl e \<Rightarrow> Inl e
      | Inr p \<Rightarrow>
          (case recall S G of
             Inl e \<Rightarrow> Inl e
           | Inr r \<Rightarrow>
               if py_eq (py_add p r) (PyInt 0) then Inr (PyInt 0)
               else py_truediv (py_mul (py_mul (py_mul (PyInt 2) p) r) (PyInt 100))
                      (py_add p r)))"

text \<open>
  Lines 28 to 39: the loop over the annotators. \<open>G\<close> is allocated once, before the
  loop, and each round overwrites its first \<open>shape[1]\<close> entries.
\<close>

fun user_loop ::
  "64 word list \<Rightarrow> nat \<Rightarrow> 64 word list list \<Rightarrow> 64 word list \<Rightarrow> pynum list \<Rightarrow> error + pynum list"
where
  "user_loop S L [] G f_scores = Inr f_scores"
| "user_loop S L (row # rest) G f_scores =
     (let G' = slice_assign G L row in
      case f_score S G' of
        Inl e \<Rightarrow> Inl e
      | Inr f \<Rightarrow> user_loop S L rest G' (f_scores @ [f]))"

text \<open>
  Lines 23 to 39: the list \<open>f_scores\<close> when the loop has ended, and lines 41 to 44:
  its reduction. The predicted summary is given, like the rows, as the \<open>int64\<close>
  values that line 26 stores in \<open>S\<close>.
\<close>

definition f_scores_of :: "64 word list \<Rightarrow> ndarray2 \<Rightarrow> error + pynum list" where
  "f_scores_of predicted_summary user_summary =
     (let max_len = max (length predicted_summary) (shape1 user_summary);
          S = np_zeros max_len;
          G = np_zeros max_len;
          S = slice_assign S (length predicted_summary) predicted_summary
      in user_loop S (shape1 user_summary) (rows user_summary) G [])"

definition evaluate_summary :: "64 word list \<Rightarrow> ndarray2 \<Rightarrow> string \<Rightarrow> error + pynum" where
  "evaluate_summary predicted_summary user_summary eval_method =
     (case f_scores_of predicted_summary user_summary of
        Inl e \<Rightarrow> Inl e
      | Inr f_scores \<Rightarrow>
          if eval_method = ''max'' then py_max f_scores
          else py_truediv (py_sum f_scores) (PyInt (int (length f_scores))))"

subsection \<open>Zero padding, as the specification words it\<close>

text \<open>
  The specification describes the comparison on vectors padded with zeros on the right
  up to \<open>max_len\<close>, one F-score per annotator row. \<open>f_scores_padded\<close> follows these
  words; \<open>collect\<close> gathers the results of a computation that may raise, in order.
\<close>

definition pad :: "nat \<Rightarrow> 64 word list \<Rightarrow> 64 word list" where
  "pad n xs = xs @ replicate (n - length xs) 0"

fun collect :: "('a \<Rightarrow> error + 'b) \<Rightarrow> 'a list \<Rightarrow> error + 'b list" where
  "collect f [] = Inr []"
| "collect f (x # xs) =
     (case f x of
        Inl e \<Rightarrow> Inl e
      | Inr y \<Rightarrow> (case collect f xs of Inl e \<Rightarrow> Inl e | Inr ys \<Rightarrow> Inr (y # ys)))"

definition f_scores_padded :: "64 word list \<Rightarrow> ndarray2 \<Rightarrow> error + pynum list" where
  "f_scores_padded predicted us =
     (let max_len = max (length predicted) (shape1 us)
      in collect (\<lambda>row. f_score (pad max_len predicted) (pad max_len row)) (rows us))"

section \<open>The weight initialiser \<open>Solver.init_weights\<close>\<close>

text \<open>
  The network is the list that \<open>net.named_parameters()\<close> yields, in its order: names
  with the parameters. A parameter is a tensor: its dimensions and its entries. The
  initialisers of \<open>torch.nn.init\<close> other than \<open>constant_\<close> are not in this repository
  and draw random values; they are parameters of the model (\<open>nn_init\<close>), named after
  the functions without the trailing underscore. They may raise (\<open>xavier_uniform_\<close>,
  \<open>kaiming_uniform_\<close> and \<open>orthogonal_\<close> raise \<open>ValueError\<close> on a tensor with
  fewer than two dimensions), so their result is an error or the new tensor; an
  initialiser that raises has not changed the tensor. \<open>'weight' in name\<close> is
  \<open>sublist ''weight'' name\<close>.
\<close>

record tensor =
  dims :: "nat list"
  entries :: "real list"

record nn_init =
  init_normal :: "real \<Rightarrow> real \<Rightarrow> tensor \<Rightarrow> error + tensor"
  init_xavier_uniform :: "real \<Rightarrow> tensor \<Rightarrow> error + tensor"
  init_kaiming_uniform :: "string \<Rightarrow> string \<Rightarrow> tensor \<Rightarrow> error + tensor"
  init_orthogonal :: "real \<Rightarrow> tensor \<Rightarrow> error + tensor"

definition init_constant :: "tensor \<Rightarrow> real \<Rightarrow> tensor" where
  "init_constant param val = param\<lparr>entries := map (\<lambda>_. val) (entries param)\<rparr>"

text \<open>Lines 90 to 102: what one round of the loop does to one parameter.\<close>

definition init_param ::
  "nn_init \<Rightarrow> string \<Rightarrow> real \<Rightarrow> string \<Rightarrow> tensor \<Rightarrow> error + tensor"
where
  "init_param nn init_type init_gain name param =
     (if sublist ''weight'' name \<and> \<not> sublist ''norm'' name then
        (if init_type = ''normal'' then init_normal nn 0 init_gain param
         else if init_type = ''xavier'' then init_xavier_uniform nn (sqrt 2) param
         else if init_type = ''kaiming'' then init_kaiming_uniform nn ''fan_in'' ''relu'' param
         else if init_type = ''orthogonal'' then init_orthogonal nn (sqrt 2) param
         else Inl (NotImplementedError
                (''initialization method '' @ init_type @ '' is not implemented.'')))
      else if sublist ''bias'' name then Inr (init_constant param (1 / 10))
      else Inr param)"

text \<open>
  The loop of line 89. The parameters are mutated in place, so the network after the
  call is part of the result also when the call raises: the parameters before the
  raising one hold their new values, the raising one and those after it their old ones.
\<close>

fun init_weights ::
  "nn_init \<Rightarrow> (string \<times> tensor) list \<Rightarrow> string \<Rightarrow> real \<Rightarrow> error option \<times> (string \<times> tensor) list"
where
  "init_weights nn [] init_type init_gain = (None, [])"
| "init_weights nn ((name, param) # rest) init_type init_gain =
     (case init_param nn init_type init_gain name param of
        Inl e \<Rightarrow> (Some e, (name, param) # rest)
      | Inr param' \<Rightarrow>
          (case init_weights nn rest init_type init_gain of
             (r, rest') \<Rightarrow> (r, (name, param') # rest')))"

text \<open>
  Names for stating what the loop does: a parameter that line 90 selects, a policy
  that lines 91 to 98 know, what the loop does to a parameter that line 90 does not
  select, and the error of line 100. \<open>fill_init\<close> is a deterministic stand-in for the
  random initialisers, to run the loop on concrete networks: it fills with a constant
  and raises where the initialisers of \<open>torch\<close> refuse the number of dimensions.
\<close>

definition weight_param :: "string \<Rightarrow> bool" where
  "weight_param name = (sublist ''weight'' name \<and> \<not> sublist ''norm'' name)"

definition supported :: "string \<Rightarrow> bool" where
  "supported init_type =
     (init_type = ''normal'' \<or> init_type = ''xavier'' \<or> init_type = ''kaiming''
      \<or> init_type = ''orthogonal'')"

definition bias_step :: "string \<times> tensor \<Rightarrow> string \<times> tensor" where
  "bias_step p = (fst p, if sublist ''bias'' (fst p) then init_constant (snd p) (1 / 10) else snd p)"

definition not_implemented :: "string \<Rightarrow> error" where
  "not_implemented init_type =
     NotImplementedError (''initialization method '' @ init_type @ '' is not implemented.'')"

definition fill_2d :: "tensor \<Rightarrow> error + tensor" where
  "fill_2d param = (if length (dims param) < 2 then Inl ValueError else Inr (init_constant param 0))"

definition fill_init :: nn_init where
  "fill_init =
     \<lparr>init_normal = (\<lambda>mean std param. Inr (init_constant param mean)),
      init_xavier_uniform = (\<lambda>gain param. fill_2d param),
      init_kaiming_uniform = (\<lambda>mode nonlinearity param. fill_2d param),
      init_orthogonal = (\<lambda>gain param. fill_2d param)\<rparr>"

section \<open>The evaluation pass \<open>Solver.evaluate\<close>\<close>

text \<open>
  The model, the loaders, the dataset file, \<open>generate_summary\<close>, \<open>torch\<close> and
  \<open>numpy.mean\<close> are not in \<open>model/solver.py\<close>; what they deliver is a parameter of
  the model (\<open>env\<close>):
  \<^item> \<open>train_len\<close> is \<open>len(self.train_loader)\<close>, and \<open>train_item e i\<close> is what the
    \<open>i\<close>-th \<open>next(iterator)\<close> of epoch \<open>e\<close> leads to: \<open>model_summary\<close> and
    \<open>user_summary\<close> as lines 127 and 133 hand them to \<open>evaluate_summary\<close>, and the
    loss of line 134;
  \<^item> \<open>test_items e\<close> and \<open>train_infer_items e\<close> are, for the evaluation pass of epoch
    \<open>e\<close>, the pairs of \<open>summary\<close> and \<open>user_summary\<close> of the videos of
    \<open>self.test_loader\<close> and of \<open>self.train_infer_loader\<close>, in order;
  \<^item> \<open>stack_mean\<close> is \<open>torch.stack(...).mean()\<close> on a non-empty list and \<open>np_mean\<close>
    is \<open>numpy.mean\<close>.
  Failures of the file system and of these libraries are not modelled, and neither is
  the console output of \<open>tqdm\<close>.
\<close>

record sample =
  model_summary :: "64 word list"
  user_summary :: ndarray2
  loss :: fl

record env =
  train_len :: nat
  train_item :: "nat \<Rightarrow> nat \<Rightarrow> sample"
  stack_mean :: "fl list \<Rightarrow> fl"
  test_items :: "nat \<Rightarrow> (64 word list \<times> ndarray2) list"
  train_infer_items :: "nat \<Rightarrow> (64 word list \<times> ndarray2) list"
  np_mean :: "pynum list \<Rightarrow> pynum"

text \<open>
  The loops of lines 209 to 225 and 230 to 245 have the same body: every F1 value is
  appended to the list.
\<close>

fun f1_loop :: "(64 word list \<times> ndarray2) list \<Rightarrow> pynum list \<Rightarrow> error + pynum list" where
  "f1_loop [] f1s = Inr f1s"
| "f1_loop ((summary, us) # rest) f1s =
     (case evaluate_summary summary us ''max'' of
        Inl e \<Rightarrow> Inl e
      | Inr f1_score \<Rightarrow> f1_loop rest (f1s @ [f1_score]))"

definition evaluate :: "env \<Rightarrow> nat \<Rightarrow> error + (pynum \<times> pynum)" where
  "evaluate ev epoch_i =
     (case f1_loop (test_items ev epoch_i) [] of
        Inl e \<Rightarrow> Inl e
      | Inr f1_test \<Rightarrow>
          (let avg_f1_test = np_mean ev f1_test in
           case f1_loop (train_infer_items ev epoch_i) [] of
             Inl e \<Rightarrow> Inl e
           | Inr f1_train \<Rightarrow>
               (let avg_f1_train = np_mean ev f1_train in
                Inr (avg_f1_train, avg_f1_test))))"

section \<open>The training loop \<open>Solver.train\<close>\<close>

text \<open>
  What the loop does to the model, the optimizer, the files and the logger is recorded
  as a trace of events. Every event carries the epoch in which it happens.
\<close>

datatype event =
    ModelTrain nat
  | ZeroGrad nat
  | Forward nat nat
  | Backward nat nat
  | ClipGradNorm nat real
  | OptimizerStep nat
  | UpdateLoss nat fl string
  | EnsureDir nat string
  | SaveCheckpoint nat string
  | EvaluatePass nat
  | LogWrite nat fl fl pynum pynum
  | Print nat fl fl pynum pynum

record config =
  n_epochs :: nat
  batch_size :: nat
  clip :: real
  save_dir :: string

record train_state =
  trace :: "event list"
  last_loss :: fl
  f1_score :: "pynum list"
  loss_history :: "fl list"
  iterator :: nat

definition tol :: fl where
  "tol = Fin 7"

text \<open>Lines 126 to 144: one video. \<open>next\<close> raises when the iterator is exhausted.\<close>

definition video_step :: "env \<Rightarrow> nat \<Rightarrow> train_state \<Rightarrow> error + train_state" where
  "video_step ev epoch_i st =
     (if train_len ev \<le> iterator st then Inl StopIteration
      else
        (let item = train_item ev epoch_i (iterator st) in
         case evaluate_summary (model_summary item) (user_summary item) ''max'' of
           Inl e \<Rightarrow> Inl e
         | Inr f1 \<Rightarrow>
             Inr (st\<lparr>trace := trace st @ [Forward epoch_i (iterator st), Backward epoch_i (iterator st)],
                     f1_score := (if \<not> np_isnan f1 then f1_score st @ [f1] else f1_score st),
                     loss_history := loss_history st @ [loss item],
                     iterator := Suc (iterator st)\<rparr>)))"

fun video_loop :: "env \<Rightarrow> nat \<Rightarrow> nat \<Rightarrow> train_state \<Rightarrow> error + train_state" where
  "video_loop ev epoch_i 0 st = Inr st"
| "video_loop ev epoch_i (Suc n) st =
     (case video_step ev epoch_i st of
        Inl e \<Rightarrow> Inl e
      | Inr st' \<Rightarrow> video_loop ev epoch_i n st')"

text \<open>Lines 124 to 147: one batch.\<close>

definition batch_step :: "env \<Rightarrow> config \<Rightarrow> nat \<Rightarrow> train_state \<Rightarrow> error + train_state" where
  "batch_step ev cfg epoch_i st =
     (case video_loop ev epoch_i (batch_size cfg) (st\<lparr>trace := trace st @ [ZeroGrad epoch_i]\<rparr>) of
        Inl e \<Rightarrow> Inl e
      | Inr st' \<Rightarrow>
          Inr (st'\<lparr>trace := trace st' @ [ClipGradNorm epoch_i (clip cfg), OptimizerStep epoch_i]\<rparr>))"

fun batch_loop :: "env \<Rightarrow> config \<Rightarrow> nat \<Rightarrow> nat \<Rightarrow> train_state \<Rightarrow> error + train_state" where
  "batch_loop ev cfg epoch_i 0 st = Inr st"
| "batch_loop ev cfg epoch_i (Suc n) st =
     (case batch_step ev cfg epoch_i st of
        Inl e \<Rightarrow> Inl e
      | Inr st' \<Rightarrow> batch_loop ev cfg epoch_i n st')"

text \<open>Line 154.\<close>

definition loss_diff :: "fl \<Rightarrow> fl \<Rightarrow> fl" where
  "loss_diff current_loss previous =
     fl_mul (fl_div (fl_sub current_loss previous) current_loss) (Fin 100)"

text \<open>Lines 163 to 181: what an epoch that did not stop does after the check.\<close>

definition epoch_end_events :: "config \<Rightarrow> nat \<Rightarrow> fl \<Rightarrow> fl \<Rightarrow> pynum \<Rightarrow> pynum \<Rightarrow> event list" where
  "epoch_end_events cfg epoch_i current_loss diff f1_train f1_test =
     [UpdateLoss epoch_i current_loss ''loss_epoch'',
      EnsureDir epoch_i (save_dir cfg),
      SaveCheckpoint epoch_i (save_dir cfg @ ''/last_epoch.pkl''),
      EvaluatePass epoch_i,
      UpdateLoss epoch_i (to_fl f1_train) ''f1_train'',
      UpdateLoss epoch_i (to_fl f1_test) ''f1_test'',
      LogWrite epoch_i current_loss diff f1_train f1_test,
      Print epoch_i current_loss diff f1_train f1_test]"

text \<open>
  Lines 113 to 181: one epoch. The result says whether the loop is left by \<open>break\<close>.
  \<open>int(len(self.train_loader) / self.config.batch_size)\<close> is the floor of the quotient
  (and raises for a batch size of 0); \<open>torch.stack\<close> raises on an empty list.
\<close>

definition epoch_body ::
  "env \<Rightarrow> config \<Rightarrow> nat \<Rightarrow> train_state \<Rightarrow> error + (bool \<times> train_state)"
where
  "epoch_body ev cfg epoch_i st =
     (if batch_size cfg = 0 then Inl ZeroDivisionError
      else
        (let num_batches = train_len ev div batch_size cfg;
             st0 = st\<lparr>trace := trace st @ [ModelTrain epoch_i],
                      f1_score := [], loss_history := [], iterator := 0\<rparr>
         in case batch_loop ev cfg epoch_i num_batches st0 of
              Inl e \<Rightarrow> Inl e
            | Inr st1 \<Rightarrow>
                if loss_history st1 = [] then Inl RuntimeError
                else
                  (let current_loss = stack_mean ev (loss_history st1);
                       diff = loss_diff current_loss (last_loss st1);
                       st2 = st1\<lparr>last_loss := current_loss\<rparr>
                   in if fl_ge diff tol then Inr (True, st2)
                      else
                        (case evaluate ev epoch_i of
                           Inl e \<Rightarrow> Inl e
                         | Inr (f1_train, f1_test) \<Rightarrow>
                             Inr (False,
                               st2\<lparr>trace := trace st2 @
                                 epoch_end_events cfg epoch_i current_loss diff f1_train f1_test\<rparr>)))))"

text \<open>Line 112: the loop over the epochs, left at the first \<open>break\<close>.\<close>

fun epoch_loop :: "env \<Rightarrow> config \<Rightarrow> nat list \<Rightarrow> train_state \<Rightarrow> error + train_state" where
  "epoch_loop ev cfg [] st = Inr st"
| "epoch_loop ev cfg (epoch_i # rest) st =
     (case epoch_body ev cfg epoch_i st of
        Inl e \<Rightarrow> Inl e
      | Inr (stop, st') \<Rightarrow> if stop then Inr st' else epoch_loop ev cfg rest st')"

definition train :: "env \<Rightarrow> config \<Rightarrow> error + train_state" where
  "train ev cfg =
     epoch_loop ev cfg [0..<n_epochs cfg]
       \<lparr>trace = [], last_loss = Fin 100000, f1_score = [], loss_history = [], iterator = 0\<rparr>"

subsection \<open>Names for stating what the loops do\<close>

text \<open>
  The events of one video and of one batch, in closed form; the losses that the
  videos of an epoch contribute, their mean, the value of \<open>last_loss\<close> when the epoch
  starts and the \<open>diff\<close> of line 154; and the F1 value of one training video and of
  one video of the evaluation pass.
\<close>

definition video_events :: "nat \<Rightarrow> nat \<Rightarrow> event list" where
  "video_events epoch_i i = [Forward epoch_i i, Backward epoch_i i]"

definition batch_events :: "config \<Rightarrow> nat \<Rightarrow> nat \<Rightarrow> event list" where
  "batch_events cfg epoch_i b =
     ZeroGrad epoch_i
     # concat (map (video_events epoch_i) [b * batch_size cfg..<b * batch_size cfg + batch_size cfg])
     @ [ClipGradNorm epoch_i (clip cfg), OptimizerStep epoch_i]"

definition epoch_losses :: "env \<Rightarrow> config \<Rightarrow> nat \<Rightarrow> fl list" where
  "epoch_losses ev cfg epoch_i =
     map (\<lambda>i. loss (train_item ev epoch_i i))
       [0..<(train_len ev div batch_size cfg) * batch_size cfg]"

definition epoch_mean_loss :: "env \<Rightarrow> config \<Rightarrow> nat \<Rightarrow> fl" where
  "epoch_mean_loss ev cfg epoch_i = stack_mean ev (epoch_losses ev cfg epoch_i)"

definition previous_loss :: "env \<Rightarrow> config \<Rightarrow> nat \<Rightarrow> fl" where
  "previous_loss ev cfg epoch_i =
     (if epoch_i = 0 then Fin 100000 else epoch_mean_loss ev cfg (epoch_i - 1))"

definition epoch_diff :: "env \<Rightarrow> config \<Rightarrow> nat \<Rightarrow> fl" where
  "epoch_diff ev cfg epoch_i =
     loss_diff (epoch_mean_loss ev cfg epoch_i) (previous_loss ev cfg epoch_i)"

definition train_f1 :: "env \<Rightarrow> nat \<Rightarrow> nat \<Rightarrow> error + pynum" where
  "train_f1 ev epoch_i i =
     evaluate_summary (model_summary (train_item ev epoch_i i))
       (user_summary (train_item ev epoch_i i)) ''max''"

definition eval_f1 :: "64 word list \<times> ndarray2 \<Rightarrow> error + pynum" where
  "eval_f1 item = evaluate_summary (fst item) (snd item) ''max''"

text \<open>
  The epoch of an event, kinds of events, and the epochs of the events of one kind
  in a trace, in order.
\<close>

fun epoch_of :: "event \<Rightarrow> nat" where
  "epoch_of (ModelTrain e) = e"
| "epoch_of (ZeroGrad e) = e"
| "epoch_of (Forward e _) = e"
| "epoch_of (Backward e _) = e"
| "epoch_of (ClipGradNorm e _) = e"
| "epoch_of (OptimizerStep e) = e"
| "epoch_of (UpdateLoss e _ _) = e"
| "epoch_of (EnsureDir e _) = e"
| "epoch_of (SaveCheckpoint e _) = e"
| "epoch_of (EvaluatePass e) = e"
| "epoch_of (LogWrite e _ _ _ _) = e"
| "epoch_of (Print e _ _ _ _) = e"

fun is_epoch_start :: "event \<Rightarrow> bool" where
  "is_epoch_start (ModelTrain _) = True"
| "is_epoch_start _ = False"

fun is_checkpoint :: "event \<Rightarrow> bool" where
  "is_checkpoint (SaveCheckpoint _ _) = True"
| "is_checkpoint _ = False"

fun is_evaluation :: "event \<Rightarrow> bool" where
  "is_evaluation (EvaluatePass _) = True"
| "is_evaluation _ = False"

fun is_log_write :: "event \<Rightarrow> bool" where
  "is_log_write (LogWrite _ _ _ _ _) = True"
| "is_log_write _ = False"

fun is_metric_log :: "event \<Rightarrow> bool" where
  "is_metric_log (UpdateLoss _ _ _) = True"
| "is_metric_log (LogWrite _ _ _ _ _) = True"
| "is_metric_log (Print _ _ _ _ _) = True"
| "is_metric_log _ = False"

fun is_gradient_event :: "event \<Rightarrow> bool" where
  "is_gradient_event (ZeroGrad _) = True"
| "is_gradient_event (Forward _ _) = True"
| "is_gradient_event (Backward _ _) = True"
| "is_gradient_event (ClipGradNorm _ _) = True"
| "is_gradient_event (OptimizerStep _) = True"
| "is_gradient_event _ = False"

definition epochs_of :: "(event \<Rightarrow> bool) \<Rightarrow> event list \<Rightarrow> nat list" where
  "epochs_of P tr = map epoch_of (filter P tr)"

text \<open>
  A small concrete run: three training videos in batches of two, of which the first
  has an all-zero summary, losses 4, 2 and 3 in epochs 0, 1 and 2 onwards, one test
  video with an all-zero summary, and exact means for \<open>torch\<close>'s and numpy's.
  \<open>init_state\<close> is the state in which \<open>train\<close> starts.
\<close>

definition fl_mean :: "fl list \<Rightarrow> fl" where
  "fl_mean xs = fl_div (foldl fl_add (Fin 0) xs) (Fin (real (length xs)))"

definition demo_env :: env where
  "demo_env =
     \<lparr>train_len = 3,
      train_item = (\<lambda>e i.
        \<lparr>model_summary = (if i = 0 then [0, 0] else [1, 0]),
         user_summary = \<lparr>shape1 = 2, rows = [[1, 0]]\<rparr>,
         loss = (if e = 0 then Fin 4 else if e = 1 then Fin 2 else Fin 3)\<rparr>),
      stack_mean = fl_mean,
      test_items = (\<lambda>e. [([0, 0], \<lparr>shape1 = 2, rows = [[1, 0]]\<rparr>)]),
      train_infer_items = (\<lambda>e. [([1, 0], \<lparr>shape1 = 2, rows = [[1, 0]]\<rparr>)]),
      np_mean = (\<lambda>xs. NpFloat (fl_mean (map to_fl xs)))\<rparr>"

definition demo_config :: config where
  "demo_config = \<lparr>n_epochs = 5, batch_size = 2, clip = 5, save_dir = ''save''\<rparr>"

definition init_state :: train_state where
  "init_state = \<lparr>trace = [], last_loss = Fin 100000, f1_score = [], loss_history = [], iterator = 0\<rparr>"

section \<open>Properties of the scoring metric\<close>

subsection \<open>Padding\<close>

lemma length_pad: "length xs \<le> n \<Longrightarrow> length (pad n xs) = n"
  by (simp add: pad_def)

lemma nth_pad: "i < n \<Longrightarrow> length xs \<le> n \<Longrightarrow> pad n xs ! i = (if i < length xs then xs ! i else 0)"
  by (simp add: pad_def nth_append)

lemma slice_assign_zeros: "slice_assign (np_zeros n) (length xs) xs = pad n xs"
  by (simp add: slice_assign_def np_zeros_def pad_def)

lemma slice_assign_pad:
  "length row = L \<Longrightarrow> L \<le> length G \<Longrightarrow> drop L G = replicate (length G - L) 0
   \<Longrightarrow> slice_assign G L row = pad (length G) row"
  by (simp add: slice_assign_def pad_def)

lemma user_loop_collect:
  "list_all (\<lambda>r. length r = L) rs \<Longrightarrow> L \<le> length G \<Longrightarrow> drop L G = replicate (length G - L) 0
   \<Longrightarrow> user_loop S L rs G fs =
       (case collect (\<lambda>row. f_score S (pad (length G) row)) rs of
          Inl e \<Rightarrow> Inl e
        | Inr ys \<Rightarrow> Inr (fs @ ys))"
proof (induction rs arbitrary: G fs)
  case Nil
  then show ?case by simp
next
  case (Cons row rs)
  from Cons.prems have len: "length row = L" and rest: "list_all (\<lambda>r. length r = L) rs"
    by simp_all
  have G': "slice_assign G L row = pad (length G) row"
    using len Cons.prems(2,3) by (rule slice_assign_pad)
  have lenG': "length (pad (length G) row) = length G"
    using len Cons.prems(2) by (simp add: length_pad)
  have dropG': "drop L (pad (length G) row) = replicate (length (pad (length G) row) - L) 0"
    using len Cons.prems(2) by (simp add: pad_def)
  show ?case
  proof (cases "f_score S (pad (length G) row)")
    case (Inl e)
    then show ?thesis by (simp add: G')
  next
    case (Inr f)
    have "user_loop S L rs (pad (length G) row) (fs @ [f]) =
        (case collect (\<lambda>row. f_score S (pad (length G) row)) rs of
           Inl e \<Rightarrow> Inl e | Inr ys \<Rightarrow> Inr ((fs @ [f]) @ ys))"
      using Cons.IH [of "pad (length G) row" "fs @ [f]"] rest dropG' Cons.prems(2) lenG' by simp
    then show ?thesis using Inr by (simp add: G' split: sum.splits)
  qed
qed

lemma f_scores_of_padded:
  "ndarray_ok us \<Longrightarrow> f_scores_of p us = f_scores_padded p us"
  unfolding f_scores_of_def f_scores_padded_def Let_def slice_assign_zeros ndarray_ok_def
  by (subst user_loop_collect [where fs = "[]"])
     (auto simp: np_zeros_def split: sum.splits)

lemma collect_nth:
  "collect f xs = Inr ys \<Longrightarrow> length ys = length xs \<and> (\<forall>i<length xs. f (xs ! i) = Inr (ys ! i))"
proof (induction xs arbitrary: ys)
  case Nil
  then show ?case by simp
next
  case (Cons x xs)
  then show ?case
    by (auto split: sum.splits simp: nth_Cons split: nat.splits)
qed

subsection \<open>Sums and special values\<close>

lemma foldl_py_add_NpInt:
  "foldl py_add (NpInt a) (map NpInt xs) = NpInt (a + sum_list xs)"
  by (induction xs arbitrary: a) (simp_all add: add.assoc)

lemma py_sum_NpInt:
  "py_sum (map NpInt xs) = (if xs = [] then PyInt 0 else NpInt (sum_list xs))"
  by (cases xs) (simp_all add: py_sum_def foldl_py_add_NpInt)

lemma fl_div_NaN_right [simp]: "fl_div x NaN = NaN"
  by (cases x) simp_all

lemma fl_add_NaN_right [simp]: "fl_add x NaN = NaN"
  by (cases x) simp_all

lemma fl_mul_NaN_right [simp]: "fl_mul x NaN = NaN"
  by (cases x) simp_all

lemma fl_gt_NaN_right [simp]: "fl_gt x NaN = False"
  by (cases x) simp_all

lemma sum_list_pad: "sum_list (pad n xs) = sum_list xs"
  by (simp add: pad_def sum_list_replicate)

lemma length_np_and: "length (np_and S G) = min (length S) (length G)"
  by (simp add: np_and_def)

lemma f_score_zero_sum:
  assumes "length S = length G" "S \<noteq> []" "sum_list S = 0"
  shows "f_score S G = Inr (NpFloat NaN)"
proof -
  have ne: "np_and S G \<noteq> []" "G \<noteq> []"
    using assms(1,2) by (auto simp: np_and_def)
  define ov where "ov = sum_list (np_and S G)"
  define g where "g = sum_list G"
  have p: "precision S G = Inr (NpFloat (fl_div (Fin (real_of_int (sint ov))) (Fin 0)))"
    using ne assms by (simp add: precision_def py_sum_NpInt py_truediv_def ov_def)
  have r: "recall S G = Inr (NpFloat (fl_div (Fin (real_of_int (sint ov))) (Fin (real_of_int (sint g)))))"
    using ne assms by (simp add: recall_def py_sum_NpInt py_truediv_def ov_def g_def)
  show ?thesis
    unfolding f_score_def p r
    by (simp add: py_eq_def py_truediv_def fl_inf_def)
qed

lemma collect_const:
  "(\<And>x. x \<in> set xs \<Longrightarrow> f x = Inr c) \<Longrightarrow> collect f xs = Inr (replicate (length xs) c)"
  by (induction xs) simp_all

lemma foldl_max_NaN:
  "foldl (\<lambda>maxitem item. if py_gt item maxitem then item else maxitem) (NpFloat NaN)
     (replicate k (NpFloat NaN)) = NpFloat NaN"
  by (induction k) (simp_all add: py_gt_def)

lemma py_max_NaN: "py_max (replicate (Suc k) (NpFloat NaN)) = Inr (NpFloat NaN)"
  by (simp add: foldl_max_NaN)

lemma foldl_add_NaN:
  "foldl py_add (NpFloat NaN) (replicate k (NpFloat NaN)) = NpFloat NaN"
  by (induction k) simp_all

lemma py_sum_NaN: "py_sum (replicate (Suc k) (NpFloat NaN)) = NpFloat NaN"
  by (simp add: py_sum_def foldl_add_NaN)

lemma evaluate_summary_zero_sum:
  assumes ok: "ndarray_ok us" and rows: "rows us \<noteq> []"
    and len: "0 < max (length p) (shape1 us)" and zero: "sum_list p = 0"
  shows "evaluate_summary p us m = Inr (NpFloat NaN)"
proof -
  define n where "n = max (length p) (shape1 us)"
  have "length (pad n p) = n"
    by (simp add: n_def length_pad)
  then have S: "length (pad n p) = n" "pad n p \<noteq> []" "sum_list (pad n p) = 0"
    using len zero by (auto simp: n_def sum_list_pad)
  have each: "f_score (pad n p) (pad n row) = Inr (NpFloat NaN)" if "row \<in> set (rows us)" for row
  proof -
    from that ok have "length row = shape1 us"
      by (simp add: ndarray_ok_def list_all_iff)
    then have "length (pad n p) = length (pad n row)"
      by (simp add: n_def length_pad)
    then show ?thesis using S(2,3) by (rule f_score_zero_sum)
  qed
  obtain k where k: "length (rows us) = Suc k"
    using rows by (cases "rows us") simp_all
  have "f_scores_of p us = Inr (replicate (Suc k) (NpFloat NaN))"
    using collect_const [of "rows us" "\<lambda>row. f_score (pad n p) (pad n row)" "NpFloat NaN"] each k
    by (simp add: f_scores_of_padded [OF ok] f_scores_padded_def n_def [symmetric])
  then show ?thesis
    unfolding evaluate_summary_def
    by (simp only: sum.case py_max_NaN py_sum_NaN length_replicate)
       (simp add: py_truediv_def)
qed

lemma precision_all_zero:
  assumes "length S = length G" "S \<noteq> []" "\<forall>x\<in>set S. x = 0"
  shows "precision S G = Inr (NpFloat NaN)"
proof -
  have S: "S = replicate (length S) 0"
    using assms(3) by (simp add: replicate_length_same)
  have "np_and S G = replicate (length S) 0"
    unfolding np_and_def
    by (subst S, rule nth_equalityI) (simp_all add: assms(1))
  then have ov: "sum_list (np_and S G) = 0" "np_and S G \<noteq> []"
    using assms(2) by (auto simp: sum_list_replicate)
  have "sum_list S = 0"
    by (subst S) (simp add: sum_list_replicate)
  then show ?thesis
    using assms(2) ov by (simp add: precision_def py_sum_NpInt py_truediv_def)
qed

lemma f_scores_of_no_rows: "rows us = [] \<Longrightarrow> f_scores_of p us = Inr []"
  by (simp add: f_scores_of_def Let_def)

lemma f_score_total:
  assumes "length S = length G" "S \<noteq> []"
  shows "\<exists>f. f_score S G = Inr f"
proof -
  have ne: "np_and S G \<noteq> []" "G \<noteq> []"
    using assms by (auto simp: np_and_def)
  obtain a where p: "precision S G = Inr (NpFloat a)"
    using ne assms by (simp add: precision_def py_sum_NpInt py_truediv_def)
  obtain b where r: "recall S G = Inr (NpFloat b)"
    using ne assms by (simp add: recall_def py_sum_NpInt py_truediv_def)
  show ?thesis
    unfolding f_score_def p r by (simp add: py_truediv_def)
qed

lemma collect_total:
  "(\<And>x. x \<in> set xs \<Longrightarrow> \<exists>y. f x = Inr y) \<Longrightarrow> \<exists>ys. collect f xs = Inr ys \<and> length ys = length xs"
proof (induction xs)
  case Nil
  then show ?case by simp
next
  case (Cons x xs)
  then obtain y where "f x = Inr y" by fastforce
  moreover from Cons obtain ys where "collect f xs = Inr ys" "length ys = length xs" by fastforce
  ultimately show ?case by simp
qed

lemma f_scores_of_total:
  assumes ok: "ndarray_ok us" and len: "0 < max (length p) (shape1 us)"
  shows "\<exists>fs. f_scores_of p us = Inr fs \<and> length fs = length (rows us)"
proof -
  define n where "n = max (length p) (shape1 us)"
  have S: "length (pad n p) = n" by (simp add: n_def length_pad)
  have "\<exists>f. f_score (pad n p) (pad n row) = Inr f" if "row \<in> set (rows us)" for row
  proof -
    from that ok have "length row = shape1 us"
      by (simp add: ndarray_ok_def list_all_iff)
    then have "length (pad n p) = length (pad n row)"
      by (simp add: n_def length_pad)
    moreover have "pad n p \<noteq> []" using S len by (auto simp: n_def)
    ultimately show ?thesis by (rule f_score_total)
  qed
  then show ?thesis
    using collect_total [of "rows us" "\<lambda>row. f_score (pad n p) (pad n row)"]
    by (simp add: f_scores_of_padded [OF ok] f_scores_padded_def n_def [symmetric])
qed

lemma py_truediv_count: "n \<noteq> 0 \<Longrightarrow> \<exists>v. py_truediv x (PyInt (int n)) = Inr v"
  by (simp add: py_truediv_def)

subsection \<open>Claims about \<open>evaluate_summary\<close>\<close>

text \<open>
  Claim C3. For every predicted vector and every user-summary array,
  \<open>evaluate_summary\<close> compares the predicted summary and each annotator row after
  copying them, left-aligned, into zero vectors of length
  \<open>max (length predicted) (shape1 us)\<close>: its result is the reduction of the F-scores
  computed on the padded vectors, each padded vector has that length, keeps the
  entries of the original and is 0 at every position the original does not have.
\<close>

theorem evaluate_summary_zero_padding:
  assumes "ndarray_ok us"
  shows "evaluate_summary p us m =
           (case f_scores_padded p us of
              Inl e \<Rightarrow> Inl e
            | Inr fs \<Rightarrow> if m = ''max'' then py_max fs
                        else py_truediv (py_sum fs) (PyInt (int (length fs))))
         \<and> (\<forall>v \<in> insert p (set (rows us)).
              length (pad (max (length p) (shape1 us)) v) = max (length p) (shape1 us)
              \<and> (\<forall>i < max (length p) (shape1 us).
                    pad (max (length p) (shape1 us)) v ! i = (if i < length v then v ! i else 0)))"
proof -
  have "length v \<le> max (length p) (shape1 us)" if "v \<in> insert p (set (rows us))" for v
    using that assms by (auto simp: ndarray_ok_def list_all_iff)
  then show ?thesis
    by (simp add: evaluate_summary_def f_scores_of_padded [OF assms] length_pad nth_pad)
qed

theorem evaluate_summary_zero_padding_witness:
  "ndarray_ok \<lparr>shape1 = 3, rows = [[0, 1, 1], [1, 0, 0]]\<rparr>
   \<and> f_scores_padded [1] \<lparr>shape1 = 3, rows = [[0, 1, 1], [1, 0, 0]]\<rparr> = Inr [PyInt 0, NpFloat (Fin 100)]
   \<and> evaluate_summary [1] \<lparr>shape1 = 3, rows = [[0, 1, 1], [1, 0, 0]]\<rparr> ''max'' = Inr (NpFloat (Fin 100))
   \<and> pad 3 [1] = [1, 0, 0]"
proof -
  have ok: "ndarray_ok \<lparr>shape1 = 3, rows = [[0, 1, 1], [1, 0, 0]]\<rparr>"
    by (simp add: ndarray_ok_def)
  have fs: "f_scores_padded [1] \<lparr>shape1 = 3, rows = [[0, 1, 1], [1, 0, 0]]\<rparr> = Inr [PyInt 0, NpFloat (Fin 100)]"
    by code_simp
  have "pad 3 [1] = [1, 0, 0]"
    by code_simp
  then show ?thesis
    using ok fs evaluate_summary_zero_padding [OF ok, of "[1]" "''max''"]
    by (simp add: py_gt_def)
qed

text \<open>
  Claim C4. Whenever precision + recall of an annotator compares equal to 0, the
  F-score that \<open>evaluate_summary\<close> records for this annotator is 0; and
  \<open>evaluate_summary([1,0,0,0], [[0,1,1,0]], 'max')\<close> returns 0 (the Python integer
  \<open>0\<close>, which compares equal to \<open>0.0\<close>).
\<close>

theorem f_score_zero_guard:
  "(ndarray_ok us \<and> f_scores_of p us = Inr fs \<and> i < shape0 us
      \<and> precision (pad (max (length p) (shape1 us)) p) (pad (max (length p) (shape1 us)) (rows us ! i)) = Inr pr
      \<and> recall (pad (max (length p) (shape1 us)) p) (pad (max (length p) (shape1 us)) (rows us ! i)) = Inr rc
      \<and> py_eq (py_add pr rc) (PyInt 0)
    \<longrightarrow> fs ! i = PyInt 0)
   \<and> evaluate_summary [1, 0, 0, 0] \<lparr>shape1 = 4, rows = [[0, 1, 1, 0]]\<rparr> ''max'' = Inr (PyInt 0)
   \<and> py_eq (PyInt 0) (PyFloat (Fin 0))"
proof (intro conjI impI)
  assume a: "ndarray_ok us \<and> f_scores_of p us = Inr fs \<and> i < shape0 us
      \<and> precision (pad (max (length p) (shape1 us)) p) (pad (max (length p) (shape1 us)) (rows us ! i)) = Inr pr
      \<and> recall (pad (max (length p) (shape1 us)) p) (pad (max (length p) (shape1 us)) (rows us ! i)) = Inr rc
      \<and> py_eq (py_add pr rc) (PyInt 0)"
  then have ok: "ndarray_ok us" and fs: "f_scores_of p us = Inr fs"
    by simp_all
  have "collect (\<lambda>row. f_score (pad (max (length p) (shape1 us)) p)
                 (pad (max (length p) (shape1 us)) row)) (rows us) = Inr fs"
    using fs unfolding f_scores_of_padded [OF ok] f_scores_padded_def Let_def .
  from collect_nth [OF this] a
  have "f_score (pad (max (length p) (shape1 us)) p)
          (pad (max (length p) (shape1 us)) (rows us ! i)) = Inr (fs ! i)"
    by (simp add: shape0_def)
  with a show "fs ! i = PyInt 0"
    by (simp add: f_score_def)
next
  show "evaluate_summary [1, 0, 0, 0] \<lparr>shape1 = 4, rows = [[0, 1, 1, 0]]\<rparr> ''max'' = Inr (PyInt 0)"
    by (simp add: evaluate_summary_def f_scores_of_def np_zeros_def slice_assign_def f_score_def
        precision_def recall_def np_and_def py_sum_def py_truediv_def py_eq_def)
next
  show "py_eq (PyInt 0) (PyFloat (Fin 0))"
    by (simp add: py_eq_def)
qed

theorem f_score_zero_guard_witness:
  "ndarray_ok \<lparr>shape1 = 4, rows = [[0, 1, 1, 0]]\<rparr>
   \<and> f_scores_of [1, 0, 0, 0] \<lparr>shape1 = 4, rows = [[0, 1, 1, 0]]\<rparr> = Inr [PyInt 0]
   \<and> precision [1, 0, 0, 0] [0, 1, 1, 0] = Inr (NpFloat (Fin 0))
   \<and> recall [1, 0, 0, 0] [0, 1, 1, 0] = Inr (NpFloat (Fin 0))
   \<and> py_eq (py_add (NpFloat (Fin 0)) (NpFloat (Fin 0))) (PyInt 0)
   \<and> [PyInt 0] ! 0 = PyInt 0"
  using f_score_zero_guard [of "\<lparr>shape1 = 4, rows = [[0, 1, 1, 0]]\<rparr>" "[1, 0, 0, 0]" "[PyInt 0]" 0
      "NpFloat (Fin 0)" "NpFloat (Fin 0)"]
  by (simp add: ndarray_ok_def f_scores_of_def np_zeros_def slice_assign_def f_score_def
      precision_def recall_def np_and_def py_sum_def py_truediv_def py_eq_def pad_def shape0_def)

text \<open>
  Claim C6, amended. For a predicted summary whose entries sum to zero, an array with
  at least one annotator row, and \<open>max_len\<close> at least 1, \<open>evaluate_summary\<close> raises
  no exception and returns \<open>nan\<close>, under either policy; when all entries of the
  predicted summary are 0, the precision of every annotator is itself \<open>nan\<close>
  (\<open>0/0\<close> between \<open>int64\<close> scalars).
\<close>

theorem zero_sum_prediction_nan:
  assumes "ndarray_ok us" and "rows us \<noteq> []"
    and "0 < max (length p) (shape1 us)" and "sum_list p = 0"
  shows "evaluate_summary p us m = Inr (NpFloat NaN)
         \<and> ((\<forall>x\<in>set p. x = 0) \<longrightarrow>
              (\<forall>row\<in>set (rows us).
                 precision (pad (max (length p) (shape1 us)) p)
                   (pad (max (length p) (shape1 us)) row) = Inr (NpFloat NaN)))"
proof (intro conjI impI ballI)
  show "evaluate_summary p us m = Inr (NpFloat NaN)"
    using assms by (rule evaluate_summary_zero_sum)
next
  fix row
  assume zero: "\<forall>x\<in>set p. x = 0" and row: "row \<in> set (rows us)"
  define n where "n = max (length p) (shape1 us)"
  from row assms(1) have "length row = shape1 us"
    by (simp add: ndarray_ok_def list_all_iff)
  then have "length (pad n p) = length (pad n row)"
    by (simp add: n_def length_pad)
  moreover have "pad n p \<noteq> []"
    using assms(3) length_pad [of p n] by (auto simp: n_def)
  moreover have "\<forall>x\<in>set (pad n p). x = 0"
    using zero by (auto simp: pad_def)
  ultimately show "precision (pad (max (length p) (shape1 us)) p)
      (pad (max (length p) (shape1 us)) row) = Inr (NpFloat NaN)"
    unfolding n_def [symmetric] by (rule precision_all_zero)
qed

theorem zero_sum_prediction_nan_witness:
  "ndarray_ok \<lparr>shape1 = 3, rows = [[1, 1, 0], [0, 0, 1]]\<rparr>
   \<and> sum_list [0, 0 :: 64 word] = 0
   \<and> evaluate_summary [0, 0] \<lparr>shape1 = 3, rows = [[1, 1, 0], [0, 0, 1]]\<rparr> ''max'' = Inr (NpFloat NaN)
   \<and> precision (pad 3 [0, 0]) (pad 3 [1, 1, 0]) = Inr (NpFloat NaN)"
proof -
  let ?us = "\<lparr>shape1 = 3, rows = [[1, 1, 0], [0, 0, 1]]\<rparr>"
  have ok: "ndarray_ok ?us" by (simp add: ndarray_ok_def)
  have rows: "rows ?us \<noteq> []" by simp
  have len: "0 < max (length [0, 0 :: 64 word]) (shape1 ?us)" by simp
  have zero: "sum_list [0, 0 :: 64 word] = 0" by simp
  have n: "max (length [0, 0 :: 64 word]) (shape1 ?us) = 3" by simp
  note T = zero_sum_prediction_nan [OF ok rows len zero, of "''max''", unfolded n]
  from T have "evaluate_summary [0, 0] ?us ''max'' = Inr (NpFloat NaN)"
    by (rule conjunct1)
  moreover from T have "precision (pad 3 [0, 0]) (pad 3 [1, 1, 0]) = Inr (NpFloat NaN)"
    by simp
  ultimately show ?thesis using ok zero by blast
qed

text \<open>
  The claim as stated fails when \<open>max_len\<close> is 0: the sums of the empty arrays are
  the Python integer \<open>0\<close>, and \<open>0/0\<close> between Python integers raises.
\<close>

theorem zero_sum_empty_counterexample:
  "sum_list ([] :: 64 word list) = 0
   \<and> rows \<lparr>shape1 = 0, rows = [[]]\<rparr> \<noteq> []
   \<and> ndarray_ok \<lparr>shape1 = 0, rows = [[]]\<rparr>
   \<and> evaluate_summary [] \<lparr>shape1 = 0, rows = [[]]\<rparr> ''max'' = Inl ZeroDivisionError
   \<and> evaluate_summary [] \<lparr>shape1 = 0, rows = [[]]\<rparr> ''avg'' = Inl ZeroDivisionError"
  by (simp add: ndarray_ok_def evaluate_summary_def f_scores_of_def np_zeros_def slice_assign_def
      f_score_def precision_def np_and_def py_sum_def py_truediv_def)

text \<open>
  Claim C7. \<open>evaluate_summary\<close> with policy \<open>max\<close> is not invariant under a
  permutation of the annotator rows: for the binary summary \<open>[1,1]\<close>, the rows
  \<open>[0,0], [1,1]\<close> give \<open>nan\<close> and the same rows in the other order give 100. The row
  of zeros has recall \<open>0/0 = nan\<close>, the guard of line 36 does not catch it, and \<open>max\<close>
  keeps a \<open>nan\<close> that comes first.
\<close>

theorem annotator_order_changes_max:
  "evaluate_summary [1, 1] \<lparr>shape1 = 2, rows = [[0, 0], [1, 1]]\<rparr> ''max'' = Inr (NpFloat NaN)
   \<and> evaluate_summary [1, 1] \<lparr>shape1 = 2, rows = [[1, 1], [0, 0]]\<rparr> ''max'' = Inr (NpFloat (Fin 100))"
  by code_simp

text \<open>
  Claim C9. For every \<open>eval_method\<close> other than \<open>max\<close>, whatever the string,
  \<open>evaluate_summary\<close> returns the sum of the per-annotator F-scores divided by their
  number; it behaves as it does for \<open>avg\<close>, so the name raises nothing of its own;
  and with at least one annotator row and \<open>max_len\<close> at least 1 it returns a value.
\<close>

theorem other_policy_is_mean:
  assumes "m \<noteq> ''max''"
  shows "evaluate_summary p us m =
           (case f_scores_of p us of
              Inl e \<Rightarrow> Inl e
            | Inr fs \<Rightarrow> py_truediv (py_sum fs) (PyInt (int (length fs))))
         \<and> evaluate_summary p us m = evaluate_summary p us ''avg''
         \<and> (ndarray_ok us \<and> rows us \<noteq> [] \<and> 0 < max (length p) (shape1 us) \<longrightarrow>
              (\<exists>fs v. f_scores_of p us = Inr fs
                 \<and> py_truediv (py_sum fs) (PyInt (int (length fs))) = Inr v
                 \<and> evaluate_summary p us m = Inr v))"
proof (intro conjI impI)
  show eq: "evaluate_summary p us m =
      (case f_scores_of p us of
         Inl e \<Rightarrow> Inl e
       | Inr fs \<Rightarrow> py_truediv (py_sum fs) (PyInt (int (length fs))))"
    using assms by (simp add: evaluate_summary_def split: sum.splits)
  show "evaluate_summary p us m = evaluate_summary p us ''avg''"
    using assms by (simp add: evaluate_summary_def split: sum.splits)
  assume a: "ndarray_ok us \<and> rows us \<noteq> [] \<and> 0 < max (length p) (shape1 us)"
  then obtain fs where fs: "f_scores_of p us = Inr fs" "length fs = length (rows us)"
    using f_scores_of_total [of us p] by blast
  with a have "length fs \<noteq> 0" by simp
  then obtain v where "py_truediv (py_sum fs) (PyInt (int (length fs))) = Inr v"
    using py_truediv_count by blast
  then show "\<exists>fs v. f_scores_of p us = Inr fs
      \<and> py_truediv (py_sum fs) (PyInt (int (length fs))) = Inr v
      \<and> evaluate_summary p us m = Inr v"
    using fs eq by simp
qed

theorem other_policy_is_mean_witness:
  "''median'' \<noteq> ''max''
   \<and> f_scores_of [1, 1, 1, 1] \<lparr>shape1 = 4, rows = [[1, 0, 0, 0], [1, 1, 0, 0]]\<rparr>
       = Inr [NpFloat (Fin 40), NpFloat (Fin (200 / 3))]
   \<and> evaluate_summary [1, 1, 1, 1] \<lparr>shape1 = 4, rows = [[1, 0, 0, 0], [1, 1, 0, 0]]\<rparr> ''median''
       = Inr (NpFloat (Fin (160 / 3)))
   \<and> evaluate_summary [1, 1, 1, 1] \<lparr>shape1 = 4, rows = [[1, 0, 0, 0], [1, 1, 0, 0]]\<rparr> ''avg''
       = Inr (NpFloat (Fin (160 / 3)))"
proof -
  have fs: "f_scores_of [1, 1, 1, 1] \<lparr>shape1 = 4, rows = [[1, 0, 0, 0], [1, 1, 0, 0]]\<rparr>
       = Inr [NpFloat (Fin 40), NpFloat (Fin (200 / 3))]"
    by (simp add: f_scores_of_def np_zeros_def slice_assign_def f_score_def
      precision_def recall_def np_and_def py_sum_def py_truediv_def py_eq_def)
  have ne: "''median'' \<noteq> ''max''" by simp
  note T = other_policy_is_mean [OF ne, of "[1, 1, 1, 1]"
      "\<lparr>shape1 = 4, rows = [[1, 0, 0, 0], [1, 1, 0, 0]]\<rparr>"]
  from T have med: "evaluate_summary [1, 1, 1, 1]
      \<lparr>shape1 = 4, rows = [[1, 0, 0, 0], [1, 1, 0, 0]]\<rparr> ''median'' = Inr (NpFloat (Fin (160 / 3)))"
    by (simp add: fs py_sum_def py_truediv_def)
  from T have "evaluate_summary [1, 1, 1, 1]
      \<lparr>shape1 = 4, rows = [[1, 0, 0, 0], [1, 1, 0, 0]]\<rparr> ''median'' =
    evaluate_summary [1, 1, 1, 1] \<lparr>shape1 = 4, rows = [[1, 0, 0, 0], [1, 1, 0, 0]]\<rparr> ''avg''"
    by blast
  with med have "evaluate_summary [1, 1, 1, 1]
      \<lparr>shape1 = 4, rows = [[1, 0, 0, 0], [1, 1, 0, 0]]\<rparr> ''avg'' = Inr (NpFloat (Fin (160 / 3)))"
    by simp
  with med fs ne show ?thesis by blast
qed

text \<open>
  Claim C10. On an array with no annotator row \<open>evaluate_summary\<close> raises under both
  policies: \<open>ValueError\<close> (the maximum of an empty list) for \<open>max\<close>,
  \<open>ZeroDivisionError\<close> (the mean's division by \<open>len(f_scores) = 0\<close>) otherwise.
\<close>

theorem no_annotator_raises:
  assumes "shape0 us = 0"
  shows "evaluate_summary p us ''max'' = Inl ValueError
         \<and> (m \<noteq> ''max'' \<longrightarrow> evaluate_summary p us m = Inl ZeroDivisionError)"
  using assms
  by (simp add: shape0_def evaluate_summary_def f_scores_of_no_rows py_sum_def py_truediv_def)

theorem no_annotator_raises_witness:
  "shape0 \<lparr>shape1 = 4, rows = []\<rparr> = 0
   \<and> evaluate_summary [1, 0, 1, 0] \<lparr>shape1 = 4, rows = []\<rparr> ''max'' = Inl ValueError
   \<and> evaluate_summary [1, 0, 1, 0] \<lparr>shape1 = 4, rows = []\<rparr> ''avg'' = Inl ZeroDivisionError"
  using no_annotator_raises [of "\<lparr>shape1 = 4, rows = []\<rparr>" "[1, 0, 1, 0]" "''avg''"]
  by (simp add: shape0_def)

section \<open>Properties of the weight initialiser\<close>

lemma init_param_bias:
  "init_param nn ty g name t = Inr t' \<Longrightarrow> sublist ''bias'' name \<Longrightarrow> \<not> weight_param name
   \<Longrightarrow> t' = init_constant t (1 / 10)"
  by (auto simp: init_param_def weight_param_def split: if_splits)

lemma init_weights_returns:
  "init_weights nn net ty g = (None, net') \<Longrightarrow>
   map fst net' = map fst net
   \<and> (\<forall>p\<in>set net'. sublist ''bias'' (fst p) \<and> \<not> weight_param (fst p)
          \<longrightarrow> (\<forall>x\<in>set (entries (snd p)). x = 1 / 10))"
proof (induction net arbitrary: net')
  case Nil
  then show ?case by simp
next
  case (Cons a net)
  obtain name t where a: "a = (name, t)" by (cases a)
  from Cons.prems obtain t' rest' where t': "init_param nn ty g name t = Inr t'"
    and rest: "init_weights nn net ty g = (None, rest')"
    and net': "net' = (name, t') # rest'"
    by (auto simp: a split: sum.splits prod.splits)
  have "\<forall>x\<in>set (entries (init_constant t (1 / 10))). x = 1 / 10"
    by (simp add: init_constant_def)
  with init_param_bias [OF t'] have
    "sublist ''bias'' name \<and> \<not> weight_param name \<longrightarrow> (\<forall>x\<in>set (entries t'). x = 1 / 10)"
    by blast
  with Cons.IH [OF rest] show ?case
    by (simp add: net' a)
qed

lemma init_param_unsupported:
  "\<not> supported ty \<Longrightarrow>
   init_param nn ty g name t =
     (if weight_param name then Inl (not_implemented ty) else Inr (snd (bias_step (name, t))))"
  by (simp add: init_param_def supported_def weight_param_def bias_step_def not_implemented_def)

lemma init_weights_unsupported:
  "\<not> supported ty \<Longrightarrow>
   init_weights nn net ty g =
     (if list_ex (\<lambda>p. weight_param (fst p)) net then Some (not_implemented ty) else None,
      map bias_step (takeWhile (\<lambda>p. \<not> weight_param (fst p)) net)
        @ dropWhile (\<lambda>p. \<not> weight_param (fst p)) net)"
proof (induction net)
  case Nil
  then show ?case by simp
next
  case (Cons a net)
  obtain name t where a: "a = (name, t)" by (cases a)
  show ?case
    using Cons by (simp add: a init_param_unsupported bias_step_def)
qed

text \<open>
  An initialiser of \<open>torch\<close> can raise for a supported policy: here \<open>bn.weight\<close>, which
  line 90 selects, has one dimension, and the bias after it is never reached.
\<close>

lemma init_weights_initialiser_raises:
  "init_weights fill_init
     [(''bn.weight'', \<lparr>dims = [2], entries = [1, 1]\<rparr>), (''fc.bias'', \<lparr>dims = [1], entries = [3]\<rparr>)]
     ''xavier'' 1
   = (Some ValueError,
      [(''bn.weight'', \<lparr>dims = [2], entries = [1, 1]\<rparr>), (''fc.bias'', \<lparr>dims = [1], entries = [3]\<rparr>)])"
  by (simp add: init_param_def fill_init_def fill_2d_def sublist_code)

text \<open>
  Claim C2, amended. When \<open>init_weights\<close> with a supported policy returns, the names
  are as before and every parameter whose name contains \<open>bias\<close>, and which line 90
  does not select as a weight (name with \<open>weight\<close> and without \<open>norm\<close>), equals 0.1
  in every entry. With an unsupported policy it raises \<open>NotImplementedError\<close> naming the
  policy exactly when some parameter is selected as a weight; it raises at the first
  such parameter, which keeps its value as do all later ones, while the parameters
  before it have been processed already (those named \<open>bias\<close> are 0.1); when no
  parameter is selected as a weight, nothing is raised and every parameter is processed.
\<close>

theorem init_weights_by_policy:
  "(supported ty \<and> init_weights nn net ty g = (None, net') \<longrightarrow>
      map fst net' = map fst net
      \<and> (\<forall>p\<in>set net'. sublist ''bias'' (fst p) \<and> \<not> weight_param (fst p)
             \<longrightarrow> (\<forall>x\<in>set (entries (snd p)). x = 1 / 10)))
   \<and> (\<not> supported ty \<longrightarrow>
        init_weights nn net ty g =
          (if list_ex (\<lambda>p. weight_param (fst p)) net then Some (not_implemented ty) else None,
           map bias_step (takeWhile (\<lambda>p. \<not> weight_param (fst p)) net)
             @ dropWhile (\<lambda>p. \<not> weight_param (fst p)) net))"
  using init_weights_returns [of nn net ty g net'] init_weights_unsupported [of ty nn net g]
  by blast

theorem init_weights_by_policy_witness:
  "supported ''xavier''
   \<and> init_weights fill_init
        [(''norm.bias'', \<lparr>dims = [1], entries = [0]\<rparr>),
         (''fc.weight'', \<lparr>dims = [1, 1], entries = [5]\<rparr>),
         (''fc.bias'', \<lparr>dims = [1], entries = [3]\<rparr>)] ''xavier'' 1
       = (None,
          [(''norm.bias'', \<lparr>dims = [1], entries = [1 / 10]\<rparr>),
           (''fc.weight'', \<lparr>dims = [1, 1], entries = [0]\<rparr>),
           (''fc.bias'', \<lparr>dims = [1], entries = [1 / 10]\<rparr>)])
   \<and> list_all (\<lambda>x. x = 1 / 10) (entries \<lparr>dims = [1], entries = [1 / 10]\<rparr>)
   \<and> \<not> supported ''foo''
   \<and> init_weights fill_init
        [(''norm.bias'', \<lparr>dims = [1], entries = [0]\<rparr>),
         (''fc.weight'', \<lparr>dims = [1, 1], entries = [5]\<rparr>),
         (''fc.bias'', \<lparr>dims = [1], entries = [3]\<rparr>)] ''foo'' 1
       = (Some (NotImplementedError ''initialization method foo is not implemented.''),
          [(''norm.bias'', \<lparr>dims = [1], entries = [1 / 10]\<rparr>),
           (''fc.weight'', \<lparr>dims = [1, 1], entries = [5]\<rparr>),
           (''fc.bias'', \<lparr>dims = [1], entries = [3]\<rparr>)])"
proof -
  let ?net = "[(''norm.bias'', \<lparr>dims = [1], entries = [0]\<rparr>),
         (''fc.weight'', \<lparr>dims = [1, 1], entries = [5]\<rparr>),
         (''fc.bias'', \<lparr>dims = [1], entries = [3]\<rparr>)]"
  let ?net' = "[(''norm.bias'', \<lparr>dims = [1], entries = [1 / 10]\<rparr>),
           (''fc.weight'', \<lparr>dims = [1, 1], entries = [0]\<rparr>),
           (''fc.bias'', \<lparr>dims = [1], entries = [1 / 10]\<rparr>)]"
  have s: "supported ''xavier''" and u: "\<not> supported ''foo''"
    by (simp_all add: supported_def)
  have w: "\<not> weight_param ''norm.bias''" "weight_param ''fc.weight''"
    "sublist ''bias'' ''norm.bias''"
    by (simp_all add: weight_param_def sublist_code)
  have r: "init_weights fill_init ?net ''xavier'' 1 = (None, ?net')"
    by (simp add: init_param_def init_constant_def fill_init_def fill_2d_def sublist_code)
  from s r w init_weights_by_policy [of "''xavier''" fill_init ?net 1 ?net']
  have b: "list_all (\<lambda>x. x = 1 / 10) (entries \<lparr>dims = [1], entries = [1 / 10]\<rparr>)"
    by simp
  from u init_weights_by_policy [of "''foo''" fill_init ?net 1]
  have "init_weights fill_init ?net ''foo'' 1
       = (Some (NotImplementedError ''initialization method foo is not implemented.''),
          [(''norm.bias'', \<lparr>dims = [1], entries = [1 / 10]\<rparr>),
           (''fc.weight'', \<lparr>dims = [1, 1], entries = [5]\<rparr>),
           (''fc.bias'', \<lparr>dims = [1], entries = [3]\<rparr>)])"
    by (simp add: w not_implemented_def bias_step_def init_constant_def sublist_code)
  with s u r b show ?thesis by blast
qed

text \<open>
  The claim as stated fails three ways: a parameter named \<open>bias_proj.weight\<close> is
  initialised as a weight, not set to 0.1; with the unsupported policy \<open>foo\<close> the
  parameter \<open>norm.bias\<close>, which comes before the first weight, is set to 0.1 before
  the error is raised; and a network without weights raises nothing at all.
\<close>

theorem init_weights_counterexample:
  "supported ''normal''
   \<and> init_weights fill_init [(''bias_proj.weight'', \<lparr>dims = [1, 1], entries = [7]\<rparr>)] ''normal'' 1
       = (None, [(''bias_proj.weight'', \<lparr>dims = [1, 1], entries = [0]\<rparr>)])
   \<and> \<not> supported ''foo''
   \<and> init_weights fill_init
        [(''norm.bias'', \<lparr>dims = [1], entries = [0]\<rparr>),
         (''fc.weight'', \<lparr>dims = [1, 1], entries = [0]\<rparr>)] ''foo'' 1
       = (Some (NotImplementedError ''initialization method foo is not implemented.''),
          [(''norm.bias'', \<lparr>dims = [1], entries = [1 / 10]\<rparr>),
           (''fc.weight'', \<lparr>dims = [1, 1], entries = [0]\<rparr>)])
   \<and> init_weights fill_init [(''fc.bias'', \<lparr>dims = [1], entries = [0]\<rparr>)] ''foo'' 1
       = (None, [(''fc.bias'', \<lparr>dims = [1], entries = [1 / 10]\<rparr>)])"
  by (simp add: supported_def init_param_def init_constant_def fill_init_def sublist_code)

section \<open>Properties of the training loop and of the evaluation pass\<close>

subsection \<open>Videos and batches\<close>

lemma upt_add_Suc: "[i..<i + Suc n] = i # [Suc i..<Suc i + n]"
  by (simp add: upt_conv_Cons)

lemma video_step_spec:
  assumes "video_step ev e st = Inr st'"
  shows "trace st' = trace st @ video_events e (iterator st)"
    and "loss_history st' = loss_history st @ [loss (train_item ev e (iterator st))]"
    and "iterator st' = Suc (iterator st)"
    and "last_loss st' = last_loss st"
    and "\<exists>f1. train_f1 ev e (iterator st) = Inr f1
           \<and> f1_score st' = (if np_isnan f1 then f1_score st else f1_score st @ [f1])"
  using assms
  by (auto simp: video_step_def video_events_def train_f1_def Let_def split: if_splits sum.splits)

lemma video_loop_spec:
  "video_loop ev e n st = Inr st' \<Longrightarrow>
   trace st' = trace st @ concat (map (video_events e) [iterator st..<iterator st + n])
   \<and> loss_history st' = loss_history st
        @ map (\<lambda>i. loss (train_item ev e i)) [iterator st..<iterator st + n]
   \<and> iterator st' = iterator st + n
   \<and> last_loss st' = last_loss st"
proof (induction n arbitrary: st)
  case 0
  then show ?case by simp
next
  case (Suc n)
  from Suc.prems obtain st1 where s1: "video_step ev e st = Inr st1"
    and rest: "video_loop ev e n st1 = Inr st'"
    by (auto split: sum.splits)
  note v = video_step_spec [OF s1]
  from Suc.IH [OF rest] show ?case
    unfolding upt_add_Suc by (simp add: v(1-4))
qed

lemma video_loop_f1:
  "video_loop ev e n st = Inr st' \<Longrightarrow>
   \<exists>vals. collect (train_f1 ev e) [iterator st..<iterator st + n] = Inr vals
     \<and> f1_score st' = f1_score st @ filter (\<lambda>v. \<not> np_isnan v) vals"
proof (induction n arbitrary: st)
  case 0
  then show ?case by simp
next
  case (Suc n)
  from Suc.prems obtain st1 where s1: "video_step ev e st = Inr st1"
    and rest: "video_loop ev e n st1 = Inr st'"
    by (auto split: sum.splits)
  note v = video_step_spec [OF s1]
  from v(5) obtain f1 where f1: "train_f1 ev e (iterator st) = Inr f1"
    "f1_score st1 = (if np_isnan f1 then f1_score st else f1_score st @ [f1])"
    by blast
  from Suc.IH [OF rest] obtain vals where
    vals: "collect (train_f1 ev e) [Suc (iterator st)..<Suc (iterator st) + n] = Inr vals"
    "f1_score st' = f1_score st1 @ filter (\<lambda>v. \<not> np_isnan v) vals"
    by (auto simp: v(3))
  have "collect (train_f1 ev e) [iterator st..<iterator st + Suc n] = Inr (f1 # vals)"
    unfolding upt_add_Suc by (simp only: collect.simps f1(1) vals(1) sum.case)
  moreover have "f1_score st' = f1_score st @ filter (\<lambda>v. \<not> np_isnan v) (f1 # vals)"
    by (simp add: vals(2) f1(2))
  ultimately show ?case by blast
qed

lemma batch_step_spec:
  assumes "batch_step ev cfg e st = Inr st'" and "iterator st = b * batch_size cfg"
  shows "trace st' = trace st @ batch_events cfg e b"
    and "loss_history st' = loss_history st
           @ map (\<lambda>i. loss (train_item ev e i)) [b * batch_size cfg..<Suc b * batch_size cfg]"
    and "iterator st' = Suc b * batch_size cfg"
    and "last_loss st' = last_loss st"
proof -
  from assms(1) obtain st1 where
    loop: "video_loop ev e (batch_size cfg) (st\<lparr>trace := trace st @ [ZeroGrad e]\<rparr>) = Inr st1"
    and st': "st' = st1\<lparr>trace := trace st1 @ [ClipGradNorm e (clip cfg), OptimizerStep e]\<rparr>"
    by (auto simp: batch_step_def split: sum.splits)
  note v = video_loop_spec [OF loop]
  show "trace st' = trace st @ batch_events cfg e b"
    using v assms(2) by (simp add: st' batch_events_def)
  show "loss_history st' = loss_history st
           @ map (\<lambda>i. loss (train_item ev e i)) [b * batch_size cfg..<Suc b * batch_size cfg]"
    using v assms(2) by (simp add: st' add.commute)
  show "iterator st' = Suc b * batch_size cfg"
    using v assms(2) by (simp add: st')
  show "last_loss st' = last_loss st"
    using v by (simp add: st')
qed

lemma batch_step_f1:
  assumes "batch_step ev cfg e st = Inr st'" and "iterator st = b * batch_size cfg"
  shows "\<exists>vals. collect (train_f1 ev e) [b * batch_size cfg..<Suc b * batch_size cfg] = Inr vals
     \<and> f1_score st' = f1_score st @ filter (\<lambda>v. \<not> np_isnan v) vals"
proof -
  from assms(1) obtain st1 where
    loop: "video_loop ev e (batch_size cfg) (st\<lparr>trace := trace st @ [ZeroGrad e]\<rparr>) = Inr st1"
    and st': "st' = st1\<lparr>trace := trace st1 @ [ClipGradNorm e (clip cfg), OptimizerStep e]\<rparr>"
    by (auto simp: batch_step_def split: sum.splits)
  from video_loop_f1 [OF loop] show ?thesis
    using assms(2) by (simp add: st' add.commute)
qed

lemma upt_append_upt: "i \<le> j \<Longrightarrow> j \<le> k \<Longrightarrow> [i..<j] @ [j..<k] = [i..<k]"
  using upt_add_eq_append [of i j "k - j"] by simp

lemma collect_append:
  "collect f xs = Inr a \<Longrightarrow> collect f ys = Inr b \<Longrightarrow> collect f (xs @ ys) = Inr (a @ b)"
  by (induction xs arbitrary: a) (auto split: sum.splits)

lemma batch_loop_spec:
  "batch_loop ev cfg e n st = Inr st' \<Longrightarrow> iterator st = b * batch_size cfg \<Longrightarrow>
   trace st' = trace st @ concat (map (batch_events cfg e) [b..<b + n])
   \<and> loss_history st' = loss_history st
        @ map (\<lambda>i. loss (train_item ev e i)) [b * batch_size cfg..<(b + n) * batch_size cfg]
   \<and> iterator st' = (b + n) * batch_size cfg
   \<and> last_loss st' = last_loss st"
proof (induction n arbitrary: st b)
  case 0
  then show ?case by simp
next
  case (Suc n)
  from Suc.prems(1) obtain st1 where s1: "batch_step ev cfg e st = Inr st1"
    and rest: "batch_loop ev cfg e n st1 = Inr st'"
    by (auto split: sum.splits)
  note b1 = batch_step_spec [OF s1 Suc.prems(2)]
  note ih = Suc.IH [OF rest b1(3)]
  have le: "b * batch_size cfg \<le> Suc b * batch_size cfg"
    "Suc b * batch_size cfg \<le> (Suc b + n) * batch_size cfg"
    by simp_all
  have "loss_history st' = loss_history st
      @ map (\<lambda>i. loss (train_item ev e i))
          ([b * batch_size cfg..<Suc b * batch_size cfg]
           @ [Suc b * batch_size cfg..<(Suc b + n) * batch_size cfg])"
    using ih b1(2) by simp
  then have "loss_history st' = loss_history st
      @ map (\<lambda>i. loss (train_item ev e i)) [b * batch_size cfg..<(b + Suc n) * batch_size cfg]"
    unfolding upt_append_upt [OF le] by simp
  moreover have "trace st' = trace st @ concat (map (batch_events cfg e) [b..<b + Suc n])"
    unfolding upt_add_Suc using ih b1(1) by simp
  moreover have "iterator st' = (b + Suc n) * batch_size cfg" "last_loss st' = last_loss st"
    using ih b1(4) by simp_all
  ultimately show ?case by blast
qed

lemma batch_loop_f1:
  "batch_loop ev cfg e n st = Inr st' \<Longrightarrow> iterator st = b * batch_size cfg \<Longrightarrow>
   \<exists>vals. collect (train_f1 ev e) [b * batch_size cfg..<(b + n) * batch_size cfg] = Inr vals
     \<and> f1_score st' = f1_score st @ filter (\<lambda>v. \<not> np_isnan v) vals"
proof (induction n arbitrary: st b)
  case 0
  then show ?case by simp
next
  case (Suc n)
  from Suc.prems(1) obtain st1 where s1: "batch_step ev cfg e st = Inr st1"
    and rest: "batch_loop ev cfg e n st1 = Inr st'"
    by (auto split: sum.splits)
  note b1 = batch_step_spec [OF s1 Suc.prems(2)]
  from batch_step_f1 [OF s1 Suc.prems(2)] obtain v1 where
    v1: "collect (train_f1 ev e) [b * batch_size cfg..<Suc b * batch_size cfg] = Inr v1"
    "f1_score st1 = f1_score st @ filter (\<lambda>v. \<not> np_isnan v) v1"
    by blast
  from Suc.IH [OF rest b1(3)] obtain v2 where
    v2: "collect (train_f1 ev e) [Suc b * batch_size cfg..<(Suc b + n) * batch_size cfg] = Inr v2"
    "f1_score st' = f1_score st1 @ filter (\<lambda>v. \<not> np_isnan v) v2"
    by blast
  have le: "b * batch_size cfg \<le> Suc b * batch_size cfg"
    "Suc b * batch_size cfg \<le> (Suc b + n) * batch_size cfg"
    by simp_all
  have "collect (train_f1 ev e) [b * batch_size cfg..<(Suc b + n) * batch_size cfg] = Inr (v1 @ v2)"
    using collect_append [OF v1(1) v2(1)] unfolding upt_append_upt [OF le] .
  then have "collect (train_f1 ev e) [b * batch_size cfg..<(b + Suc n) * batch_size cfg] = Inr (v1 @ v2)"
    by simp
  moreover have "f1_score st' = f1_score st @ filter (\<lambda>v. \<not> np_isnan v) (v1 @ v2)"
    by (simp add: v1(2) v2(2))
  ultimately show ?case by blast
qed

lemma epoch_body_cases:
  assumes "epoch_body ev cfg e st = Inr (stop, st')"
  shows "\<exists>st1. batch_size cfg \<noteq> 0
    \<and> batch_loop ev cfg e (train_len ev div batch_size cfg)
           (st\<lparr>trace := trace st @ [ModelTrain e], f1_score := [], loss_history := [],
               iterator := 0\<rparr>) = Inr st1
    \<and> loss_history st1 \<noteq> []
    \<and> stop = fl_ge (loss_diff (stack_mean ev (loss_history st1)) (last_loss st1)) tol
    \<and> (stop \<longrightarrow> st' = st1\<lparr>last_loss := stack_mean ev (loss_history st1)\<rparr>)
    \<and> (\<not> stop \<longrightarrow> (\<exists>f1_train f1_test. evaluate ev e = Inr (f1_train, f1_test)
           \<and> st' = st1\<lparr>last_loss := stack_mean ev (loss_history st1),
                        trace := trace st1 @ epoch_end_events cfg e (stack_mean ev (loss_history st1))
                          (loss_diff (stack_mean ev (loss_history st1)) (last_loss st1))
                          f1_train f1_test\<rparr>))"
  using assms
  by (auto simp: epoch_body_def Let_def split: if_splits sum.splits prod.splits)

subsection \<open>Epochs\<close>

lemma epochs_of_append [simp]: "epochs_of P (xs @ ys) = epochs_of P xs @ epochs_of P ys"
  by (simp add: epochs_of_def)

lemma epochs_of_Nil [simp]: "epochs_of P [] = []"
  by (simp add: epochs_of_def)

lemma epochs_of_Cons: "epochs_of P (x # xs) = (if P x then epoch_of x # epochs_of P xs else epochs_of P xs)"
  by (simp add: epochs_of_def)

lemma batch_events_gradient: "x \<in> set (batch_events cfg e b) \<Longrightarrow> is_gradient_event x"
  by (auto simp: batch_events_def video_events_def)

lemma batches_gradient:
  "x \<in> set (concat (map (batch_events cfg e) bs)) \<Longrightarrow> is_gradient_event x"
  by (auto dest: batch_events_gradient)

lemma epochs_of_batches:
  assumes "\<And>x. is_gradient_event x \<Longrightarrow> \<not> P x"
  shows "epochs_of P (concat (map (batch_events cfg e) bs)) = []"
  unfolding epochs_of_def using assms batches_gradient [of _ cfg e bs]
  by (auto simp: filter_empty_conv)

lemma gradient_not_others:
  "is_gradient_event x \<Longrightarrow> \<not> is_epoch_start x"
  "is_gradient_event x \<Longrightarrow> \<not> is_checkpoint x"
  "is_gradient_event x \<Longrightarrow> \<not> is_evaluation x"
  "is_gradient_event x \<Longrightarrow> \<not> is_log_write x"
  "is_gradient_event x \<Longrightarrow> \<not> is_metric_log x"
  by (cases x; simp)+

lemma epoch_body_spec:
  assumes "epoch_body ev cfg e st = Inr (stop, st')"
  shows "last_loss st' = epoch_mean_loss ev cfg e"
    and "stop = fl_ge (loss_diff (epoch_mean_loss ev cfg e) (last_loss st)) tol"
    and "\<exists>post. trace st' = trace st @ ModelTrain e
             # concat (map (batch_events cfg e) [0..<train_len ev div batch_size cfg]) @ post
           \<and> (stop \<longrightarrow> post = [])
           \<and> (\<not> stop \<longrightarrow> (\<exists>f1_train f1_test. evaluate ev e = Inr (f1_train, f1_test)
                 \<and> post = epoch_end_events cfg e (epoch_mean_loss ev cfg e)
                     (loss_diff (epoch_mean_loss ev cfg e) (last_loss st)) f1_train f1_test))"
    and "\<exists>vals. collect (train_f1 ev e) [0..<(train_len ev div batch_size cfg) * batch_size cfg]
             = Inr vals
           \<and> f1_score st' = filter (\<lambda>v. \<not> np_isnan v) vals"
proof -
  let ?st0 = "st\<lparr>trace := trace st @ [ModelTrain e], f1_score := [], loss_history := [],
               iterator := 0\<rparr>"
  from assms obtain st1 where bs: "batch_size cfg \<noteq> 0"
    and loop: "batch_loop ev cfg e (train_len ev div batch_size cfg) ?st0 = Inr st1"
    and nonempty: "loss_history st1 \<noteq> []"
    and stop: "stop = fl_ge (loss_diff (stack_mean ev (loss_history st1)) (last_loss st1)) tol"
    and yes: "stop \<longrightarrow> st' = st1\<lparr>last_loss := stack_mean ev (loss_history st1)\<rparr>"
    and no: "\<not> stop \<longrightarrow> (\<exists>f1_train f1_test. evaluate ev e = Inr (f1_train, f1_test)
           \<and> st' = st1\<lparr>last_loss := stack_mean ev (loss_history st1),
                        trace := trace st1 @ epoch_end_events cfg e (stack_mean ev (loss_history st1))
                          (loss_diff (stack_mean ev (loss_history st1)) (last_loss st1))
                          f1_train f1_test\<rparr>)"
    using epoch_body_cases [OF assms] by blast
  have it0: "iterator ?st0 = 0 * batch_size cfg" by simp
  note b = batch_loop_spec [OF loop it0]
  have hist: "loss_history st1 = epoch_losses ev cfg e"
    using b by (simp add: epoch_losses_def)
  have mean: "stack_mean ev (loss_history st1) = epoch_mean_loss ev cfg e"
    by (simp add: hist epoch_mean_loss_def)
  have last1: "last_loss st1 = last_loss st"
    using b by simp
  have tr1: "trace st1 = trace st @ ModelTrain e
      # concat (map (batch_events cfg e) [0..<train_len ev div batch_size cfg])"
    using b by simp
  show "last_loss st' = epoch_mean_loss ev cfg e"
    using yes no mean by (cases stop) auto
  show "stop = fl_ge (loss_diff (epoch_mean_loss ev cfg e) (last_loss st)) tol"
    using stop by (simp add: mean last1)
  show "\<exists>post. trace st' = trace st @ ModelTrain e
             # concat (map (batch_events cfg e) [0..<train_len ev div batch_size cfg]) @ post
           \<and> (stop \<longrightarrow> post = [])
           \<and> (\<not> stop \<longrightarrow> (\<exists>f1_train f1_test. evaluate ev e = Inr (f1_train, f1_test)
                 \<and> post = epoch_end_events cfg e (epoch_mean_loss ev cfg e)
                     (loss_diff (epoch_mean_loss ev cfg e) (last_loss st)) f1_train f1_test))"
  proof (cases stop)
    case True
    with yes tr1 show ?thesis by simp
  next
    case False
    with no obtain f1_train f1_test where "evaluate ev e = Inr (f1_train, f1_test)"
      and "st' = st1\<lparr>last_loss := stack_mean ev (loss_history st1),
                        trace := trace st1 @ epoch_end_events cfg e (stack_mean ev (loss_history st1))
                          (loss_diff (stack_mean ev (loss_history st1)) (last_loss st1))
                          f1_train f1_test\<rparr>"
      by blast
    with False tr1 show ?thesis by (simp add: mean last1)
  qed
  from batch_loop_f1 [OF loop it0] obtain vals where
    "collect (train_f1 ev e) [0..<(train_len ev div batch_size cfg) * batch_size cfg] = Inr vals"
    "f1_score st1 = filter (\<lambda>v. \<not> np_isnan v) vals"
    by auto
  moreover have "f1_score st' = f1_score st1"
    using yes no by (cases stop) auto
  ultimately show "\<exists>vals. collect (train_f1 ev e) [0..<(train_len ev div batch_size cfg) * batch_size cfg]
             = Inr vals
           \<and> f1_score st' = filter (\<lambda>v. \<not> np_isnan v) vals"
    by simp
qed

lemma f1_loop_collect:
  "f1_loop items acc = Inr fs \<Longrightarrow> \<exists>vals. collect eval_f1 items = Inr vals \<and> fs = acc @ vals"
proof (induction items arbitrary: acc)
  case Nil
  then show ?case by simp
next
  case (Cons a items)
  obtain s u where a: "a = (s, u)" by (cases a)
  from Cons.prems obtain f1 where f1: "evaluate_summary s u ''max'' = Inr f1"
    and rest: "f1_loop items (acc @ [f1]) = Inr fs"
    by (auto simp: a split: sum.splits)
  from Cons.IH [OF rest] obtain vals where "collect eval_f1 items = Inr vals" "fs = (acc @ [f1]) @ vals"
    by blast
  moreover have "eval_f1 a = Inr f1"
    by (simp add: a eval_f1_def f1)
  ultimately show ?case by simp
qed

lemma evaluate_spec:
  assumes "evaluate ev e = Inr (avg_f1_train, avg_f1_test)"
  shows "\<exists>f1_test f1_train.
           collect eval_f1 (test_items ev e) = Inr f1_test
           \<and> collect eval_f1 (train_infer_items ev e) = Inr f1_train
           \<and> avg_f1_test = np_mean ev f1_test \<and> avg_f1_train = np_mean ev f1_train"
proof -
  from assms obtain a b where a: "f1_loop (test_items ev e) [] = Inr a"
    and b: "f1_loop (train_infer_items ev e) [] = Inr b"
    and r: "avg_f1_test = np_mean ev a" "avg_f1_train = np_mean ev b"
    by (auto simp: evaluate_def Let_def split: sum.splits)
  from f1_loop_collect [OF a] f1_loop_collect [OF b] r show ?thesis
    by auto
qed

lemma epochs_of_end_events:
  "epochs_of is_epoch_start (epoch_end_events cfg e l d a b) = []"
  "epochs_of is_checkpoint (epoch_end_events cfg e l d a b) = [e]"
  "epochs_of is_evaluation (epoch_end_events cfg e l d a b) = [e]"
  "epochs_of is_log_write (epoch_end_events cfg e l d a b) = [e]"
  "x \<in> set (epoch_end_events cfg e l d a b) \<Longrightarrow> epoch_of x = e \<and> \<not> is_gradient_event x"
  by (auto simp: epoch_end_events_def epochs_of_def)

lemma epoch_body_summary:
  assumes "epoch_body ev cfg e st = Inr (stop, st')"
  shows "\<exists>tr. trace st' = trace st @ tr
           \<and> epochs_of is_epoch_start tr = [e]
           \<and> epochs_of is_checkpoint tr = (if stop then [] else [e])
           \<and> epochs_of is_evaluation tr = (if stop then [] else [e])
           \<and> epochs_of is_log_write tr = (if stop then [] else [e])
           \<and> (\<forall>x\<in>set tr. is_checkpoint x \<or> is_evaluation x \<or> is_metric_log x
                  \<longrightarrow> \<not> stop \<and> epoch_of x = e)"
proof -
  let ?batches = "concat (map (batch_events cfg e) [0..<train_len ev div batch_size cfg])"
  from epoch_body_spec(3) [OF assms] obtain post where
    tr: "trace st' = trace st @ ModelTrain e # ?batches @ post"
    and yes: "stop \<longrightarrow> post = []"
    and no: "\<not> stop \<longrightarrow> (\<exists>a b l d. post = epoch_end_events cfg e l d a b)"
    by blast
  have b: "epochs_of is_epoch_start ?batches = []" "epochs_of is_checkpoint ?batches = []"
    "epochs_of is_evaluation ?batches = []" "epochs_of is_log_write ?batches = []"
    by (rule epochs_of_batches, erule gradient_not_others)+
  have bx: "\<not> (is_checkpoint x \<or> is_evaluation x \<or> is_metric_log x)" if "x \<in> set ?batches" for x
    using batches_gradient [OF that] gradient_not_others [of x] by blast
  show ?thesis
  proof (cases stop)
    case True
    with yes have "post = []" by simp
    with tr b bx True show ?thesis
      by (intro exI [of _ "ModelTrain e # ?batches"]) (auto simp: epochs_of_Cons)
  next
    case False
    with no obtain a b' l d where post: "post = epoch_end_events cfg e l d a b'" by blast
    have px: "epoch_of x = e" if "x \<in> set post" for x
      using that epochs_of_end_events(5) post by blast
    from tr b bx False show ?thesis
      by (intro exI [of _ "ModelTrain e # ?batches @ post"])
         (auto simp: epochs_of_Cons post epochs_of_end_events(1-4) dest: px [unfolded post])
  qed
qed

lemma epoch_loop_stops:
  assumes "epoch_loop ev cfg [a..<n] st = Inr st'"
    and "a \<le> k" and "k < n"
    and "fl_ge (epoch_diff ev cfg k) tol"
    and "\<forall>j. a \<le> j \<and> j < k \<longrightarrow> \<not> fl_ge (epoch_diff ev cfg j) tol"
    and "last_loss st = previous_loss ev cfg a"
  shows "\<exists>tr. trace st' = trace st @ tr
           \<and> epochs_of is_epoch_start tr = [a..<Suc k]
           \<and> epochs_of is_checkpoint tr = [a..<k]
           \<and> epochs_of is_evaluation tr = [a..<k]
           \<and> epochs_of is_log_write tr = [a..<k]
           \<and> (\<forall>x\<in>set tr. is_checkpoint x \<or> is_evaluation x \<or> is_metric_log x
                  \<longrightarrow> epoch_of x < k)"
  using assms
proof (induction "k - a" arbitrary: a st)
  case 0
  then have ak: "a = k" by simp
  have list: "[k..<n] = k # [Suc k..<n]"
    using \<open>k < n\<close> by (simp add: upt_conv_Cons)
  from "0.prems"(1) obtain stop st1 where body: "epoch_body ev cfg k st = Inr (stop, st1)"
    and rest: "if stop then st' = st1 else epoch_loop ev cfg [Suc k..<n] st1 = Inr st'"
    unfolding ak list by (auto split: sum.splits if_splits)
  have "stop = fl_ge (epoch_diff ev cfg k) tol"
    using epoch_body_spec(2) [OF body] "0.prems"(6)
    by (simp add: epoch_diff_def ak)
  with "0.prems"(4) have stop: stop by simp
  with rest have st': "st' = st1" by simp
  from epoch_body_summary [OF body] stop show ?case
    by (auto simp: st' ak)
next
  case (Suc m)
  then have lt: "a < k" by simp
  then have an: "a < n" using \<open>k < n\<close> by simp
  have list: "[a..<n] = a # [Suc a..<n]"
    using an by (simp add: upt_conv_Cons)
  from Suc.prems(1) obtain stop st1 where body: "epoch_body ev cfg a st = Inr (stop, st1)"
    and rest: "if stop then st' = st1 else epoch_loop ev cfg [Suc a..<n] st1 = Inr st'"
    unfolding list by (auto split: sum.splits if_splits)
  have "stop = fl_ge (epoch_diff ev cfg a) tol"
    using epoch_body_spec(2) [OF body] Suc.prems(6)
    by (simp add: epoch_diff_def)
  with Suc.prems(5) lt have stop: "\<not> stop" by simp
  with rest have loop: "epoch_loop ev cfg [Suc a..<n] st1 = Inr st'" by simp
  have last1: "last_loss st1 = previous_loss ev cfg (Suc a)"
    using epoch_body_spec(1) [OF body] by (simp add: previous_loss_def)
  have m: "m = k - Suc a" using Suc.hyps(2) by simp
  have le: "Suc a \<le> k" using lt by simp
  have none: "\<forall>j. Suc a \<le> j \<and> j < k \<longrightarrow> \<not> fl_ge (epoch_diff ev cfg j) tol"
    using Suc.prems(5) by simp
  from Suc.hyps(1) [OF m loop le Suc.prems(3) Suc.prems(4) none last1]
  obtain tr2 where tr2: "trace st' = trace st1 @ tr2"
    "epochs_of is_epoch_start tr2 = [Suc a..<Suc k]"
    "epochs_of is_checkpoint tr2 = [Suc a..<k]"
    "epochs_of is_evaluation tr2 = [Suc a..<k]"
    "epochs_of is_log_write tr2 = [Suc a..<k]"
    "\<forall>x\<in>set tr2. is_checkpoint x \<or> is_evaluation x \<or> is_metric_log x \<longrightarrow> epoch_of x < k"
    by blast
  from epoch_body_summary [OF body] stop
  obtain tr1 where tr1: "trace st1 = trace st @ tr1"
    "epochs_of is_epoch_start tr1 = [a]"
    "epochs_of is_checkpoint tr1 = [a]"
    "epochs_of is_evaluation tr1 = [a]"
    "epochs_of is_log_write tr1 = [a]"
    "\<forall>x\<in>set tr1. is_checkpoint x \<or> is_evaluation x \<or> is_metric_log x \<longrightarrow> epoch_of x = a"
    by auto
  have up: "[a..<Suc k] = a # [Suc a..<Suc k]" "[a..<k] = a # [Suc a..<k]"
    using lt by (simp_all add: upt_conv_Cons)
  show ?case
  proof (intro exI [of _ "tr1 @ tr2"] conjI)
    show "trace st' = trace st @ tr1 @ tr2" by (simp add: tr1(1) tr2(1))
    show "epochs_of is_epoch_start (tr1 @ tr2) = [a..<Suc k]"
      by (simp only: epochs_of_append tr1 tr2 up append_Cons append_Nil)
    show "epochs_of is_checkpoint (tr1 @ tr2) = [a..<k]"
      by (simp only: epochs_of_append tr1 tr2 up append_Cons append_Nil)
    show "epochs_of is_evaluation (tr1 @ tr2) = [a..<k]"
      by (simp only: epochs_of_append tr1 tr2 up append_Cons append_Nil)
    show "epochs_of is_log_write (tr1 @ tr2) = [a..<k]"
      by (simp only: epochs_of_append tr1 tr2 up append_Cons append_Nil)
    show "\<forall>x\<in>set (tr1 @ tr2). is_checkpoint x \<or> is_evaluation x \<or> is_metric_log x
        \<longrightarrow> epoch_of x < k"
      using tr1(6) tr2(6) lt by auto
  qed
qed

subsection \<open>Claims about the training loop\<close>

text \<open>
  Claim C1. When training returns and epoch \<open>k\<close> is the first epoch whose
  \<open>diff = (current_loss - last_loss) / current_loss * 100\<close> satisfies \<open>diff >= 7\<close>,
  the loop halts in epoch \<open>k\<close>: the epochs started are exactly \<open>0, ..., k\<close>, while a
  checkpoint is saved, the evaluation pass is run and a line is logged exactly for the
  epochs \<open>0, ..., k - 1\<close>; no checkpoint, evaluation or metric-logging event belongs to
  epoch \<open>k\<close>.
\<close>

theorem early_stopping:
  assumes "train ev cfg = Inr st" and "k < n_epochs cfg"
    and "fl_ge (epoch_diff ev cfg k) tol"
    and "\<forall>j<k. \<not> fl_ge (epoch_diff ev cfg j) tol"
  shows "epochs_of is_epoch_start (trace st) = [0..<Suc k]
         \<and> epochs_of is_checkpoint (trace st) = [0..<k]
         \<and> epochs_of is_evaluation (trace st) = [0..<k]
         \<and> epochs_of is_log_write (trace st) = [0..<k]
         \<and> (\<forall>x\<in>set (trace st). epoch_of x = k
                \<longrightarrow> \<not> is_checkpoint x \<and> \<not> is_evaluation x \<and> \<not> is_metric_log x)"
proof -
  let ?st0 = "\<lparr>trace = [], last_loss = Fin 100000, f1_score = [], loss_history = [], iterator = 0\<rparr>"
  have loop: "epoch_loop ev cfg [0..<n_epochs cfg] ?st0 = Inr st"
    using assms(1) by (simp add: train_def)
  have last0: "last_loss ?st0 = previous_loss ev cfg 0"
    by (simp add: previous_loss_def)
  have none: "\<forall>j. 0 \<le> j \<and> j < k \<longrightarrow> \<not> fl_ge (epoch_diff ev cfg j) tol"
    using assms(4) by simp
  from epoch_loop_stops [OF loop _ assms(2) assms(3) none last0]
  obtain tr where tr: "trace st = tr"
    "epochs_of is_epoch_start tr = [0..<Suc k]"
    "epochs_of is_checkpoint tr = [0..<k]"
    "epochs_of is_evaluation tr = [0..<k]"
    "epochs_of is_log_write tr = [0..<k]"
    "\<forall>x\<in>set tr. is_checkpoint x \<or> is_evaluation x \<or> is_metric_log x \<longrightarrow> epoch_of x < k"
    by auto
  from tr(6) have "\<forall>x\<in>set tr. epoch_of x = k
      \<longrightarrow> \<not> is_checkpoint x \<and> \<not> is_evaluation x \<and> \<not> is_metric_log x"
    by auto
  with tr show ?thesis by simp
qed

theorem early_stopping_witness:
  "\<exists>st. train demo_env demo_config = Inr st
     \<and> fl_ge (epoch_diff demo_env demo_config 2) tol
     \<and> \<not> fl_ge (epoch_diff demo_env demo_config 0) tol
     \<and> \<not> fl_ge (epoch_diff demo_env demo_config 1) tol
     \<and> epochs_of is_epoch_start (trace st) = [0, 1, 2]
     \<and> epochs_of is_checkpoint (trace st) = [0, 1]
     \<and> epochs_of is_evaluation (trace st) = [0, 1]
     \<and> epochs_of is_log_write (trace st) = [0, 1]"
proof -
  have "case train demo_env demo_config of Inr st \<Rightarrow> True | Inl e \<Rightarrow> False"
    by code_simp
  then obtain st where st: "train demo_env demo_config = Inr st"
    by (cases "train demo_env demo_config") simp_all
  have k: "2 < n_epochs demo_config"
    by (simp add: demo_config_def)
  have d2: "fl_ge (epoch_diff demo_env demo_config 2) tol"
    by code_simp
  have d0: "\<not> fl_ge (epoch_diff demo_env demo_config 0) tol"
    and d1: "\<not> fl_ge (epoch_diff demo_env demo_config 1) tol"
    by code_simp+
  have none: "\<forall>j<2. \<not> fl_ge (epoch_diff demo_env demo_config j) tol"
  proof (intro allI impI)
    fix j :: nat
    assume "j < 2"
    then have "j = 0 \<or> j = 1" by auto
    with d0 d1 show "\<not> fl_ge (epoch_diff demo_env demo_config j) tol" by auto
  qed
  have up: "[0..<Suc 2] = [0, 1, 2]" "[0..<2] = [0, 1 :: nat]"
    by (simp_all add: upt_conv_Cons)
  from early_stopping [OF st k d2 none] st d0 d1 d2 show ?thesis
    unfolding up by blast
qed

text \<open>
  Claim C8. An epoch that runs to its end executes exactly
  \<open>train_len div batch_size\<close> batches, and batch \<open>b\<close> is: one \<open>zero_grad\<close>, then the
  \<open>batch_size\<close> videos at the iterator's positions \<open>b * batch_size, ...\<close> in order
  (forward pass and backward pass each), then one gradient-norm clip to \<open>clip\<close>,
  then one optimizer step (\<open>batch_events\<close>). Nothing else in the epoch touches the
  gradients.
\<close>

theorem batches_per_epoch:
  assumes "epoch_body ev cfg e st = Inr (stop, st')"
  shows "\<exists>post. trace st' = trace st @ ModelTrain e
             # concat (map (batch_events cfg e) [0..<train_len ev div batch_size cfg]) @ post
           \<and> (\<forall>x\<in>set post. \<not> is_gradient_event x)
           \<and> length [0..<train_len ev div batch_size cfg] = train_len ev div batch_size cfg
           \<and> (\<forall>b. batch_events cfg e b =
                  [ZeroGrad e]
                  @ concat (map (\<lambda>i. [Forward e i, Backward e i])
                      [b * batch_size cfg..<b * batch_size cfg + batch_size cfg])
                  @ [ClipGradNorm e (clip cfg), OptimizerStep e])"
proof -
  have batch: "\<forall>b. batch_events cfg e b =
                  [ZeroGrad e]
                  @ concat (map (\<lambda>i. [Forward e i, Backward e i])
                      [b * batch_size cfg..<b * batch_size cfg + batch_size cfg])
                  @ [ClipGradNorm e (clip cfg), OptimizerStep e]"
    by (simp add: batch_events_def video_events_def [abs_def])
  from epoch_body_spec(3) [OF assms] obtain post where
    tr: "trace st' = trace st @ ModelTrain e
      # concat (map (batch_events cfg e) [0..<train_len ev div batch_size cfg]) @ post"
    and yes: "stop \<longrightarrow> post = []"
    and no: "\<not> stop \<longrightarrow> (\<exists>a b l d. post = epoch_end_events cfg e l d a b)"
    by blast
  have "\<forall>x\<in>set post. \<not> is_gradient_event x"
    using yes no epochs_of_end_events(5) by (cases stop) auto
  with tr batch show ?thesis by simp
qed

theorem batches_per_epoch_witness:
  "\<exists>stop st'. epoch_body demo_env demo_config 0 init_state = Inr (stop, st')
     \<and> train_len demo_env div batch_size demo_config = 1
     \<and> (\<exists>post. trace st' =
            [ModelTrain 0, ZeroGrad 0, Forward 0 0, Backward 0 0, Forward 0 1, Backward 0 1,
             ClipGradNorm 0 5, OptimizerStep 0] @ post
          \<and> list_all (\<lambda>x. \<not> is_gradient_event x) post)"
proof -
  have "case epoch_body demo_env demo_config 0 init_state of Inr r \<Rightarrow> True | Inl e \<Rightarrow> False"
    by code_simp
  then obtain stop st' where b: "epoch_body demo_env demo_config 0 init_state = Inr (stop, st')"
    by (cases "epoch_body demo_env demo_config 0 init_state") auto
  have n: "train_len demo_env div batch_size demo_config = 1"
    by (simp add: demo_env_def demo_config_def)
  have ev: "batch_events demo_config 0 0 =
      [ZeroGrad 0, Forward 0 0, Backward 0 0, Forward 0 1, Backward 0 1,
       ClipGradNorm 0 5, OptimizerStep 0]"
    by code_simp
  from batches_per_epoch [OF b] obtain post where
    "trace st' = trace init_state @ ModelTrain 0
       # concat (map (batch_events demo_config 0) [0..<train_len demo_env div batch_size demo_config])
       @ post"
    and "\<forall>x\<in>set post. \<not> is_gradient_event x"
    by blast
  then have "trace st' =
            [ModelTrain 0, ZeroGrad 0, Forward 0 0, Backward 0 0, Forward 0 1, Backward 0 1,
             ClipGradNorm 0 5, OptimizerStep 0] @ post
          \<and> list_all (\<lambda>x. \<not> is_gradient_event x) post"
    by (simp add: n ev init_state_def list_all_iff)
  with b n show ?thesis by blast
qed

text \<open>
  Claim C5. In the training loop the F1 accumulator of an epoch holds the F1 values
  of the epoch's videos with those that are \<open>nan\<close> left out (the check is
  \<open>np.isnan\<close>); in the evaluation pass the means are taken over all the F1 values of
  the test videos and of the train-inference videos, with none left out.
\<close>

theorem f1_filter_asymmetry:
  "(epoch_body ev cfg e st = Inr (stop, st') \<longrightarrow>
      (\<exists>vals. collect (train_f1 ev e) [0..<(train_len ev div batch_size cfg) * batch_size cfg]
                 = Inr vals
         \<and> f1_score st' = filter (\<lambda>v. \<not> np_isnan v) vals))
   \<and> (evaluate ev e = Inr (avg_f1_train, avg_f1_test) \<longrightarrow>
        (\<exists>f1_test f1_train.
           collect eval_f1 (test_items ev e) = Inr f1_test
           \<and> collect eval_f1 (train_infer_items ev e) = Inr f1_train
           \<and> avg_f1_test = np_mean ev f1_test \<and> avg_f1_train = np_mean ev f1_train))"
  using epoch_body_spec(4) [of ev cfg e st stop st'] evaluate_spec [of ev e avg_f1_train avg_f1_test]
  by blast

theorem f1_filter_asymmetry_witness:
  "\<exists>stop st'. epoch_body demo_env demo_config 0 init_state = Inr (stop, st')
     \<and> collect (train_f1 demo_env 0) [0..<2] = Inr [NpFloat NaN, NpFloat (Fin 100)]
     \<and> f1_score st' = [NpFloat (Fin 100)]
     \<and> evaluate demo_env 0 = Inr (NpFloat (Fin 100), NpFloat NaN)
     \<and> collect eval_f1 (test_items demo_env 0) = Inr [NpFloat NaN]
     \<and> np_mean demo_env [NpFloat NaN] = NpFloat NaN"
proof -
  have "case epoch_body demo_env demo_config 0 init_state of Inr r \<Rightarrow> True | Inl e \<Rightarrow> False"
    by code_simp
  then obtain stop st' where b: "epoch_body demo_env demo_config 0 init_state = Inr (stop, st')"
    by (cases "epoch_body demo_env demo_config 0 init_state") auto
  have e: "evaluate demo_env 0 = Inr (NpFloat (Fin 100), NpFloat NaN)"
    by code_simp
  have n: "(train_len demo_env div batch_size demo_config) * batch_size demo_config = 2"
    by (simp add: demo_env_def demo_config_def)
  have c: "collect (train_f1 demo_env 0) [0..<2] = Inr [NpFloat NaN, NpFloat (Fin 100)]"
    by code_simp
  have t: "collect eval_f1 (test_items demo_env 0) = Inr [NpFloat NaN]"
    by code_simp
  have m: "np_mean demo_env [NpFloat NaN] = NpFloat NaN"
    by code_simp
  note T = f1_filter_asymmetry [of demo_env demo_config 0 init_state stop st'
      "NpFloat (Fin 100)" "NpFloat NaN", unfolded n]
  from T b c have "f1_score st' = [NpFloat (Fin 100)]"
    by (auto simp: np_isnan_def)
  with b c e t m show ?thesis by blast
qed

end
